theory Spec2Isabelle
  imports Complex_Main "HOL-Library.Multiset"
begin

section \<open>JavaScript values\<close>

text \<open>
  The values that flow through the step extractor (\<open>utils/codeExecutor.js\<close>) and the
  scheduler (\<open>store/eventLoopSlice.js\<close>): syntax-tree nodes, literal values, the payloads
  of steps and console entries. An object is the list of its own enumerable properties in
  enumeration order, which is the order \<open>for (const key in node)\<close> walks them. Numbers are
  integers; source positions and line numbers are such numbers. An integer of magnitude up
  to \<open>2^53\<close> is a double, and its text is its decimal expansion; the arithmetic and the
  conversion to text of anything larger are left to \<open>Beyond\<close> below.
\<close>

datatype jsval =
    JUndefined
  | JNull
  | JBool bool
  | JNum int
  | JStr string
  | JArr "jsval list"
  | JObj "(string \<times> jsval) list"

text \<open>\<open>if (v)\<close>, \<open>!v\<close>, \<open>a && b\<close>, \<open>a || b\<close>: the truth value of a JavaScript value.\<close>

fun truthy :: "jsval \<Rightarrow> bool" where
  "truthy JUndefined = False"
| "truthy JNull = False"
| "truthy (JBool b) = b"
| "truthy (JNum n) = (n \<noteq> 0)"
| "truthy (JStr s) = (s \<noteq> [])"
| "truthy (JArr xs) = True"
| "truthy (JObj kvs) = True"

text \<open>\<open>a || b\<close> as a value.\<close>

definition js_or :: "jsval \<Rightarrow> jsval \<Rightarrow> jsval" where
  "js_or a b = (if truthy a then a else b)"

section \<open>Outcomes\<close>

text \<open>
  What the evaluation of a piece of the extractor comes to: a value; an exception, with
  its message (the wording of a \<open>TypeError\<close> is the engine's); or \<open>Beyond\<close>, where the
  program leaves what this embedding represents: a number that is not an integer of
  magnitude up to \<open>2^53\<close> (a fraction, an infinity, \<open>NaN\<close>, the negative zero), the
  operator \<open>**\<close>, whose precision the language leaves to the implementation, an object key that JavaScript treats specially (\<open>__proto__\<close>, or an
  integer-like key, which moves to the front of the enumeration order). Regular
  expression literals, whose value is a \<open>RegExp\<close> object, have no counterpart in \<open>jsval\<close>.
\<close>

datatype 'a outcome = Ok 'a | Thrown string | Beyond

definition nullish :: "jsval \<Rightarrow> bool" where
  "nullish v = (v = JUndefined \<or> v = JNull)"

fun js_prop :: "jsval \<Rightarrow> string \<Rightarrow> jsval" where
  "js_prop (JObj kvs) k = (case map_of kvs k of None \<Rightarrow> JUndefined | Some v \<Rightarrow> v)"
| "js_prop v k = JUndefined"

definition cannot_read :: string where
  "cannot_read = ''Cannot read properties of undefined''"

definition cannot_convert :: string where
  "cannot_convert = ''Cannot convert object to primitive value''"

definition not_a_function :: string where
  "not_a_function = ''is not a function''"

definition get :: "jsval \<Rightarrow> string \<Rightarrow> jsval outcome" where
  "get v k = (if nullish v then Thrown cannot_read else Ok (js_prop v k))"

definition digit_char :: "nat \<Rightarrow> char" where
  "digit_char d = char_of (48 + d)"

function show_nat :: "nat \<Rightarrow> string" where
  "show_nat n = (if n < 10 then [digit_char n] else show_nat (n div 10) @ [digit_char (n mod 10)])"
  by pat_completeness auto
termination
  by (relation "measure id") auto

definition show_int :: "int \<Rightarrow> string" where
  "show_int i = (if i < 0 then CHR ''-'' # show_nat (nat (- i)) else show_nat (nat i))"

fun js_to_string :: "jsval \<Rightarrow> string outcome"
  and js_join :: "string \<Rightarrow> jsval list \<Rightarrow> string outcome" where
  "js_to_string JUndefined = Ok ''undefined''"
| "js_to_string JNull = Ok ''null''"
| "js_to_string (JBool b) = Ok (if b then ''true'' else ''false'')"
| "js_to_string (JNum n) = (if \<bar>n\<bar> \<le> 2 ^ 53 then Ok (show_int n) else Beyond)"
| "js_to_string (JStr s) = Ok s"
| "js_to_string (JArr xs) = js_join '','' xs"
| "js_to_string (JObj kvs) =
     (if ''toString'' \<in> set (map fst kvs) then Thrown cannot_convert else Ok ''[object Object]'')"
| "js_join sep [] = Ok []"
| "js_join sep (x # xs) =
     (case (if nullish x then Ok [] else js_to_string x) of
        Ok a \<Rightarrow>
          (if xs = [] then Ok a
           else (case js_join sep xs of Ok b \<Rightarrow> Ok (a @ sep @ b) | Thrown m \<Rightarrow> Thrown m | Beyond \<Rightarrow> Beyond))
      | Thrown m \<Rightarrow> Thrown m
      | Beyond \<Rightarrow> Beyond)"

definition bind :: "'a outcome \<Rightarrow> ('a \<Rightarrow> 'b outcome) \<Rightarrow> 'b outcome" where
  "bind m f = (case m of Ok x \<Rightarrow> f x | Thrown e \<Rightarrow> Thrown e | Beyond \<Rightarrow> Beyond)"

section \<open>Steps, tasks and the scheduler state\<close>

text \<open>
  A step as \<open>parseCodeToSteps\<close> produces it. The synthetic start, end and error steps are
  object literals without \<open>queue\<close>, \<open>priority\<close>, \<open>range\<close> and \<open>loc\<close> fields; an absent
  field is \<open>None\<close> (for the two strings) or \<open>JUndefined\<close>.
\<close>

record step =
  stype :: jsval
  line :: int
  srange :: jsval
  sloc :: jsval
  description :: string
  action :: string
  isAsync :: bool
  delay :: jsval
  code :: string
  variables :: "(string \<times> jsval) list"
  soutput :: jsval
  queue :: "string option"
  priority :: "string option"

datatype task_status = PENDING | EXECUTING | COMPLETED | ERROR | WAITING

datatype animation_state = IDLE | MOVING | ANIM_EXECUTING | TRANSITIONING

datatype execution_step =
    STEP_IDLE | ENTERING_CALL_STACK | EXECUTING_CODE | CREATING_PROMISE
  | AWAITING_RESOLUTION | MOVING_TO_QUEUE | COMPLETING

datatype code_execution_state = CODE_PARSING | CODE_EXECUTING | CODE_COMPLETED | CODE_ERROR

text \<open>
  \<open>TASK_TYPES\<close>: the task type is a string, and callers of \<open>addTask\<close> may pass any.
\<close>

definition SYNCHRONOUS :: string where "SYNCHRONOUS = ''synchronous''"
definition SET_TIMEOUT :: string where "SET_TIMEOUT = ''setTimeout''"
definition PROMISE :: string where "PROMISE = ''promise''"
definition ASYNC_AWAIT :: string where "ASYNC_AWAIT = ''asyncAwait''"
definition FETCH :: string where "FETCH = ''fetch''"
definition CONSOLE_LOG :: string where "CONSOLE_LOG = ''consoleLog''"
definition VARIABLE_ASSIGNMENT :: string where "VARIABLE_ASSIGNMENT = ''variableAssignment''"
definition FUNCTION_CALL :: string where "FUNCTION_CALL = ''functionCall''"

text \<open>
  A task. Its id is a JavaScript number: \<open>addTask\<close> takes it from the counter
  \<open>nextTaskId\<close>, \<open>executeNextCodeStep\<close> computes \<open>Date.now() + Math.random()\<close>, which is
  not an integer in general, so ids are rationals. The fields that no reducer reads
  (\<open>timestamp\<close>, \<open>codeSample\<close>, \<open>executionSteps\<close>, \<open>currentStep\<close>) are left out.
\<close>

record task =
  tid :: rat
  ttype :: string
  tdescription :: string
  tdelay :: jsval
  status :: task_status
  animationState :: animation_state

text \<open>
  The texts of the console entries are decorated with an emoji and the wall-clock time;
  an entry records which text it is and what the text is built from.
\<close>

datatype result_message =
    Output string
  | Result string
  | FunctionExecuted string
  | CallbackExecuted jsval
  | PromiseResolved
  | AsyncResolved

datatype message =
    Text jsval
  | Executing task
  | Completed task
  | ExecutionResult result_message
  | ErrorIn string jsval

record console_entry =
  message :: message
  etype :: string

text \<open>
  The slice state: the four containers, the id counter, the executing-task slot, the
  console log and the code-execution workflow. The fields of the user interface
  (\<open>isRunning\<close>, \<open>speed\<close>, \<open>selectedTask\<close>, \<open>tooltip\<close>, custom-code results, the
  percentage \<open>codeExecutionProgress\<close>) take no part in scheduling and are left out.
\<close>

record event_loop =
  callStack :: "task list"
  webAPIs :: "task list"
  callbackQueue :: "task list"
  microtaskQueue :: "task list"
  nextTaskId :: rat
  currentExecutingTask :: "task option"
  executionStep :: execution_step
  consoleOutput :: "console_entry list"
  codeExecutionSteps :: "step list"
  currentCodeStep :: nat
  codeExecutionState :: code_execution_state
  codeExecutionVariables :: "(string \<times> jsval) list"
  isCodeExecuting :: bool
  codeExecutionPaused :: bool

definition initialState :: event_loop where
  "initialState = \<lparr>
     callStack = [], webAPIs = [], callbackQueue = [], microtaskQueue = [],
     nextTaskId = 1, currentExecutingTask = None, executionStep = STEP_IDLE,
     consoleOutput = [], codeExecutionSteps = [], currentCodeStep = 0,
     codeExecutionState = CODE_PARSING, codeExecutionVariables = [],
     isCodeExecuting = False, codeExecutionPaused = False \<rparr>"

section \<open>The step extractor\<close>

text \<open>
  \<open>utils/codeExecutor.js\<close>. The parser (\<open>esprima.parseScript\<close> with the options \<open>range\<close>
  and \<open>loc\<close>) is a library: its outcome on the source text, an error message or a syntax
  tree, is an input of \<open>parseCodeToSteps\<close> here. The table \<open>this.functions\<close>, which
  \<open>createExecutionStep\<close> fills for function declarations, is read by no step and is left
  out.
\<close>

subsection \<open>Extracted values\<close>

text \<open>
  The arithmetic of \<open>evaluateBinaryExpression\<close> on two numbers. Sum, difference and
  product of two integers are exact when they stay within \<open>2^53\<close>; a quotient is an
  integer only when the division leaves no remainder; the remainder of \<open>%\<close> has the sign
  of the dividend. A zero that JavaScript gives a negative sign (a product or a quotient
  of zero and a negative number, a zero remainder of a negative dividend) and everything
  else is \<open>Beyond\<close>.
\<close>

definition exact :: "int \<Rightarrow> jsval outcome" where
  "exact n = (if \<bar>n\<bar> \<le> 2 ^ 53 then Ok (JNum n) else Beyond)"

definition js_arith :: "string \<Rightarrow> int \<Rightarrow> int \<Rightarrow> jsval outcome" where
  "js_arith opr l r =
     (if \<bar>l\<bar> > 2 ^ 53 \<or> \<bar>r\<bar> > 2 ^ 53 then Beyond
      else if opr = ''+'' then exact (l + r)
      else if opr = ''-'' then exact (l - r)
      else if opr = ''*'' then
        (if l * r = 0 \<and> (l < 0 \<or> r < 0) then Beyond else exact (l * r))
      else if opr = ''/'' then
        (if r \<noteq> 0 \<and> r dvd l \<and> (l \<noteq> 0 \<or> 0 < r) then exact (l div r) else Beyond)
      else if opr = ''%'' then
        (if r \<noteq> 0 \<and> (0 \<le> l \<or> \<bar>l\<bar> mod \<bar>r\<bar> \<noteq> 0) then exact (sgn l * (\<bar>l\<bar> mod \<bar>r\<bar>))
         else Beyond)
      else Beyond)"

text \<open>
  The template string \<open>`${left} ${node.operator} ${right}`\<close>; the body of
  \<open>evaluateBinaryExpression\<close> after its two calls of \<open>extractValue\<close>, whose \<open>switch\<close> has
  the six cases \<open>+ - * / % **\<close> and no default; and its \<open>try ... catch\<close>, which answers
  every exception with a fallback value.
\<close>

definition template3 :: "jsval \<Rightarrow> jsval \<Rightarrow> jsval \<Rightarrow> string outcome" where
  "template3 l opr r =
     (case js_to_string l of
        Ok a \<Rightarrow>
          (case js_to_string opr of
             Ok b \<Rightarrow>
               (case js_to_string r of
                  Ok c \<Rightarrow> Ok (a @ '' '' @ b @ '' '' @ c)
                | Thrown m \<Rightarrow> Thrown m | Beyond \<Rightarrow> Beyond)
           | Thrown m \<Rightarrow> Thrown m | Beyond \<Rightarrow> Beyond)
      | Thrown m \<Rightarrow> Thrown m | Beyond \<Rightarrow> Beyond)"

definition arithmetic_operators :: "jsval list" where
  "arithmetic_operators = [JStr ''+'', JStr ''-'', JStr ''*'', JStr ''/'', JStr ''%'', JStr ''**'']"

fun binary_value :: "jsval \<Rightarrow> jsval \<Rightarrow> jsval \<Rightarrow> jsval outcome" where
  "binary_value (JNum a) (JStr opr) (JNum b) =
     (if JStr opr \<in> set arithmetic_operators then js_arith opr a b
      else (case template3 (JNum a) (JStr opr) (JNum b) of
              Ok s \<Rightarrow> Ok (JStr s) | Thrown m \<Rightarrow> Thrown m | Beyond \<Rightarrow> Beyond))"
| "binary_value l opr r =
     (case template3 l opr r of Ok s \<Rightarrow> Ok (JStr s) | Thrown m \<Rightarrow> Thrown m | Beyond \<Rightarrow> Beyond)"

definition binary_of :: "jsval \<Rightarrow> jsval outcome \<Rightarrow> jsval outcome \<Rightarrow> jsval outcome" where
  "binary_of opr L R =
     (case L of
        Ok l \<Rightarrow> (case R of Ok r \<Rightarrow> binary_value l opr r | Thrown m \<Rightarrow> Thrown m | Beyond \<Rightarrow> Beyond)
      | Thrown m \<Rightarrow> Thrown m
      | Beyond \<Rightarrow> Beyond)"

definition caught :: "jsval \<Rightarrow> jsval outcome \<Rightarrow> jsval outcome" where
  "caught fallback r = (case r of Thrown m \<Rightarrow> Ok fallback | _ \<Rightarrow> r)"

text \<open>
  Writing a property of an object: an existing key keeps its place, a new key goes to the
  end. \<open>assign\<close> is the statement \<open>object[key] = value\<close>, \<open>build_object\<close> the loop of
  \<open>extractObjectProperties\<close> over the properties of an object expression (each paired with
  the extracted value of its \<open>value\<close> field, which the loop consults only where
  \<open>prop.key && prop.value\<close> holds), and \<open>collect\<close> gathers the results of a \<open>map\<close>, up to
  the first that is not a value.
\<close>

fun obj_set :: "string \<Rightarrow> jsval \<Rightarrow> (string \<times> jsval) list \<Rightarrow> (string \<times> jsval) list" where
  "obj_set k v [] = [(k, v)]"
| "obj_set k v ((k', v') # kvs) = (if k' = k then (k, v) # kvs else (k', v') # obj_set k v kvs)"

definition plain_key :: "string \<Rightarrow> bool" where
  "plain_key k = (k \<noteq> ''__proto__'' \<and> (k = [] \<or> \<not> list_all (\<lambda>c. c \<in> set ''0123456789'') k))"

definition assign :: "jsval \<Rightarrow> jsval \<Rightarrow> (string \<times> jsval) list \<Rightarrow> (string \<times> jsval) list outcome" where
  "assign key v kvs =
     (case js_to_string key of
        Ok k \<Rightarrow> (if plain_key k then Ok (obj_set k v kvs) else Beyond)
      | Thrown m \<Rightarrow> Thrown m
      | Beyond \<Rightarrow> Beyond)"

fun build_object :: "(jsval \<times> jsval outcome) list \<Rightarrow> (string \<times> jsval) list \<Rightarrow> (string \<times> jsval) list outcome" where
  "build_object [] acc = Ok acc"
| "build_object ((p, V) # rest) acc =
     (if nullish p then Thrown cannot_read
      else if truthy (js_prop p ''key'') \<and> truthy (js_prop p ''value'') then
        (case V of
           Ok v \<Rightarrow>
             (case assign (js_or (js_prop (js_prop p ''key'') ''name'') (js_prop (js_prop p ''key'') ''value'')) v acc of
                Ok acc' \<Rightarrow> build_object rest acc'
              | Thrown m \<Rightarrow> Thrown m | Beyond \<Rightarrow> Beyond)
         | Thrown m \<Rightarrow> Thrown m
         | Beyond \<Rightarrow> Beyond)
      else build_object rest acc)"

fun collect :: "'a outcome list \<Rightarrow> 'a list outcome" where
  "collect [] = Ok []"
| "collect (V # rest) =
     (case V of
        Ok v \<Rightarrow> (case collect rest of Ok vs \<Rightarrow> Ok (v # vs) | Thrown m \<Rightarrow> Thrown m | Beyond \<Rightarrow> Beyond)
      | Thrown m \<Rightarrow> Thrown m
      | Beyond \<Rightarrow> Beyond)"

definition as_object :: "(string \<times> jsval) list outcome \<Rightarrow> jsval outcome" where
  "as_object r = (case r of Ok kvs \<Rightarrow> Ok (JObj kvs) | Thrown m \<Rightarrow> Thrown m | Beyond \<Rightarrow> Beyond)"

definition as_array :: "jsval list outcome \<Rightarrow> jsval outcome" where
  "as_array r = (case r of Ok xs \<Rightarrow> Ok (JArr xs) | Thrown m \<Rightarrow> Thrown m | Beyond \<Rightarrow> Beyond)"

text \<open>
  \<open>extractValue\<close> calls itself on fields of its argument, directly and through
  \<open>evaluateBinaryExpression\<close>, \<open>extractObjectProperties\<close> and \<open>extractArrayElements\<close>,
  whose bodies stand in its definition; they are stated as functions of their own after
  it. A field of a node is smaller than the node.
\<close>

lemma size_prop_le: "size (js_prop v k) \<le> size v"
proof (cases v)
  case (JObj kvs)
  show ?thesis
  proof (cases "map_of kvs k")
    case None
    with JObj show ?thesis by simp
  next
    case (Some x)
    then have "(k, x) \<in> set kvs" by (rule map_of_SomeD)
    then have "size x \<le> size_list (size_prod (\<lambda>_. 0) size) kvs"
      by (induction kvs) auto
    with JObj Some show ?thesis by simp
  qed
qed simp_all

lemma size_prop_obj: "size (js_prop (JObj kvs) k) < size (JObj kvs)"
proof (cases "map_of kvs k")
  case None
  then show ?thesis by simp
next
  case (Some x)
  then have "(k, x) \<in> set kvs" by (rule map_of_SomeD)
  then have "size x \<le> size_list (size_prod (\<lambda>_. 0) size) kvs"
    by (induction kvs) auto
  with Some show ?thesis by simp
qed

lemma prop_str_obj: "js_prop v k = JStr s \<Longrightarrow> \<exists>kvs. v = JObj kvs"
  by (cases v) simp_all

lemma prop_arr_obj: "js_prop v k = JArr xs \<Longrightarrow> \<exists>kvs. v = JObj kvs"
  by (cases v) simp_all

lemma size_elem: "x \<in> set xs \<Longrightarrow> size x < size (JArr xs)"
  by (induction xs) auto

function extractValue :: "jsval \<Rightarrow> jsval outcome" where
  "extractValue node =
     (if \<not> truthy node then Ok JUndefined
      else if js_prop node ''type'' = JStr ''Literal'' then Ok (js_prop node ''value'')
      else if js_prop node ''type'' = JStr ''Identifier'' then Ok (js_prop node ''name'')
      else if js_prop node ''type'' = JStr ''BinaryExpression'' then
        caught (JStr ''[Expression]'')
          (binary_of (js_prop node ''operator'')
             (extractValue (js_prop node ''left'')) (extractValue (js_prop node ''right'')))
      else if js_prop node ''type'' = JStr ''ObjectExpression'' then
        (case js_prop node ''properties'' of
           JArr ps \<Rightarrow>
             as_object (build_object (map (\<lambda>p. (p, extractValue (js_prop p ''value''))) ps) [])
         | JUndefined \<Rightarrow> Thrown cannot_read
         | JNull \<Rightarrow> Thrown cannot_read
         | _ \<Rightarrow> Thrown not_a_function)
      else if js_prop node ''type'' = JStr ''ArrayExpression'' then
        (case js_prop node ''elements'' of
           JArr es \<Rightarrow> as_array (collect (map extractValue es))
         | JUndefined \<Rightarrow> Thrown cannot_read
         | JNull \<Rightarrow> Thrown cannot_read
         | _ \<Rightarrow> Thrown not_a_function)
      else Ok (JStr ''[Expression]''))"
  by pat_completeness auto
termination
proof (relation "measure size")
  show "wf (measure size)" by simp
next
  fix node :: jsval
  assume "js_prop node ''type'' = JStr ''BinaryExpression''"
  then obtain kvs where "node = JObj kvs" using prop_str_obj by blast
  then show "(js_prop node ''left'', node) \<in> measure size"
    and "(js_prop node ''right'', node) \<in> measure size"
    using size_prop_obj by auto
next
  fix node :: jsval and ps p
  assume t: "js_prop node ''type'' = JStr ''ObjectExpression''"
    and a: "js_prop node ''properties'' = JArr ps" and p: "p \<in> set ps"
  from t obtain kvs where n: "node = JObj kvs" using prop_str_obj by blast
  have "size (js_prop p ''value'') \<le> size p" by (rule size_prop_le)
  also have "size p < size (JArr ps)" using p by (rule size_elem)
  also have "size (JArr ps) < size node"
    using size_prop_obj [of kvs "''properties''"] a n by simp
  finally show "(js_prop p ''value'', node) \<in> measure size" by simp
next
  fix node :: jsval and es e
  assume t: "js_prop node ''type'' = JStr ''ArrayExpression''"
    and a: "js_prop node ''elements'' = JArr es" and e: "e \<in> set es"
  from t obtain kvs where n: "node = JObj kvs" using prop_str_obj by blast
  have "size e < size (JArr es)" using e by (rule size_elem)
  also have "size (JArr es) < size node"
    using size_prop_obj [of kvs "''elements''"] a n by simp
  finally show "(e, node) \<in> measure size" by simp
qed

definition evaluateBinaryExpression :: "jsval \<Rightarrow> jsval outcome" where
  "evaluateBinaryExpression node =
     caught (JStr ''[Expression]'')
       (binary_of (js_prop node ''operator'')
          (extractValue (js_prop node ''left'')) (extractValue (js_prop node ''right'')))"

definition extractBinaryExpression :: "jsval \<Rightarrow> string outcome" where
  "extractBinaryExpression node =
     bind (extractValue (js_prop node ''left'')) (\<lambda>left.
     bind (extractValue (js_prop node ''right'')) (\<lambda>right.
       template3 left (js_prop node ''operator'') right))"

text \<open>The receiver of \<open>.map\<close>, \<open>.forEach\<close>: an array, or the call throws.\<close>

definition as_list :: "jsval \<Rightarrow> jsval list outcome" where
  "as_list v =
     (case v of
        JArr xs \<Rightarrow> Ok xs
      | JUndefined \<Rightarrow> Thrown cannot_read
      | JNull \<Rightarrow> Thrown cannot_read
      | _ \<Rightarrow> Thrown not_a_function)"

definition extractObjectProperties :: "jsval \<Rightarrow> jsval outcome" where
  "extractObjectProperties node =
     bind (as_list (js_prop node ''properties'')) (\<lambda>ps.
       as_object (build_object (map (\<lambda>p. (p, extractValue (js_prop p ''value''))) ps) []))"

definition extractArrayElements :: "jsval \<Rightarrow> jsval outcome" where
  "extractArrayElements node =
     bind (as_list (js_prop node ''elements'')) (\<lambda>es. as_array (collect (map extractValue es)))"

subsection \<open>Classification of a node\<close>

definition extractAssignment :: "jsval \<Rightarrow> string outcome" where
  "extractAssignment node =
     bind (get (js_prop node ''left'') ''name'') (\<lambda>name.
     bind (extractValue (js_prop node ''right'')) (\<lambda>right.
     bind (js_to_string (js_or name (JStr ''[Expression]''))) (\<lambda>l.
     bind (js_to_string right) (\<lambda>r. Ok (l @ '' = '' @ r)))))"

fun assignments_of :: "jsval list \<Rightarrow> (string \<times> jsval) list \<Rightarrow> (string \<times> jsval) list outcome" where
  "assignments_of [] acc = Ok acc"
| "assignments_of (decl # rest) acc =
     bind (get decl ''id'') (\<lambda>ident.
       if truthy ident \<and> truthy (js_prop decl ''init'') then
         bind (extractValue (js_prop decl ''init'')) (\<lambda>v.
         bind (assign (js_prop ident ''name'') v acc) (assignments_of rest))
       else assignments_of rest acc)"

definition extractVariableAssignments :: "jsval \<Rightarrow> (string \<times> jsval) list outcome" where
  "extractVariableAssignments node =
     bind (as_list (js_prop node ''declarations'')) (\<lambda>ds. assignments_of ds [])"

definition isConsoleCall :: "jsval \<Rightarrow> bool outcome" where
  "isConsoleCall node =
     (let callee = js_prop node ''callee'' in
      if \<not> truthy callee then Ok False
      else if js_prop callee ''type'' \<noteq> JStr ''MemberExpression'' then Ok False
      else
        bind (get (js_prop callee ''object'') ''name'') (\<lambda>n.
          if n \<noteq> JStr ''console'' then Ok False
          else
            bind (get (js_prop callee ''property'') ''name'') (\<lambda>m.
              Ok (m \<in> set [JStr ''log'', JStr ''error'', JStr ''warn'', JStr ''info'']))))"

definition isSetTimeoutCall :: "jsval \<Rightarrow> bool" where
  "isSetTimeoutCall node =
     (truthy (js_prop node ''callee'') \<and> js_prop (js_prop node ''callee'') ''name'' = JStr ''setTimeout'')"

definition isPromiseCall :: "jsval \<Rightarrow> bool" where
  "isPromiseCall node =
     (truthy (js_prop node ''callee'') \<and> js_prop (js_prop node ''callee'') ''name'' = JStr ''Promise'')"

definition isFetchCall :: "jsval \<Rightarrow> bool" where
  "isFetchCall node =
     (truthy (js_prop node ''callee'') \<and> js_prop (js_prop node ''callee'') ''name'' = JStr ''fetch'')"

definition getFunctionName :: "jsval \<Rightarrow> jsval outcome" where
  "getFunctionName node =
     bind (get (js_prop node ''callee'') ''type'') (\<lambda>t.
       if t = JStr ''Identifier'' then Ok (js_prop (js_prop node ''callee'') ''name'')
       else if t = JStr ''MemberExpression'' then
         bind (get (js_prop (js_prop node ''callee'') ''object'') ''name'') (\<lambda>a.
         bind (get (js_prop (js_prop node ''callee'') ''property'') ''name'') (\<lambda>b.
         bind (js_to_string a) (\<lambda>sa.
         bind (js_to_string b) (\<lambda>sb. Ok (JStr (sa @ ''.'' @ sb))))))
       else Ok (JStr ''anonymous''))"

definition console_argument :: "jsval \<Rightarrow> jsval outcome" where
  "console_argument arg =
     bind (get arg ''type'') (\<lambda>t.
       if t = JStr ''Literal'' then Ok (js_prop arg ''value'')
       else if t = JStr ''Identifier'' then Ok (js_prop arg ''name'')
       else if t = JStr ''BinaryExpression'' then
         bind (extractBinaryExpression arg) (\<lambda>s. Ok (JStr s))
       else Ok (JStr ''[Expression]''))"

definition extractConsoleLogMessage :: "jsval \<Rightarrow> jsval outcome" where
  "extractConsoleLogMessage node =
     caught (JStr ''[Message]'')
       (bind (as_list (js_prop node ''arguments'')) (\<lambda>args.
        bind (collect (map console_argument args)) (\<lambda>vals.
        bind (js_join '' '' vals) (\<lambda>s. Ok (JStr s)))))"

definition extractTimeoutDelay :: "jsval \<Rightarrow> jsval outcome" where
  "extractTimeoutDelay node =
     caught (JNum 1000)
       (case js_prop node ''arguments'' of
          JArr args \<Rightarrow>
            if length args > 1 then
              bind (get (args ! 1) ''type'') (\<lambda>t.
                if t = JStr ''Literal'' then Ok (js_prop (args ! 1) ''value'') else Ok (JNum 1000))
            else Ok (JNum 1000)
        | JUndefined \<Rightarrow> Thrown cannot_read
        | JNull \<Rightarrow> Thrown cannot_read
        | JObj kvs \<Rightarrow> if ''length'' \<in> set (map fst kvs) then Beyond else Ok (JNum 1000)
        | _ \<Rightarrow> Ok (JNum 1000))"

text \<open>
  The fields that \<open>createExecutionStep\<close> computes before its \<open>switch\<close>: the line,
  \<open>node.loc ? node.loc.start.line + lineOffset : 1\<close> with the offset 0 that every caller
  passes, and the code, \<open>`${node.type} statement`\<close>. \<open>declared_names\<close> and \<open>literal_text\<close>
  are the expressions inside the descriptions of a variable declaration and of a literal.
\<close>

definition node_line :: "jsval \<Rightarrow> int outcome" where
  "node_line node =
     (if truthy (js_prop node ''loc'') then
        bind (get (js_prop (js_prop node ''loc'') ''start'') ''line'') (\<lambda>l.
          case l of JNum n \<Rightarrow> Ok n | _ \<Rightarrow> Beyond)
      else Ok 1)"

definition extractCodeFromNode :: "jsval \<Rightarrow> string outcome" where
  "extractCodeFromNode node =
     bind (js_to_string (js_prop node ''type'')) (\<lambda>t. Ok (t @ '' statement''))"

definition declared_names :: "jsval \<Rightarrow> string outcome" where
  "declared_names node =
     bind (as_list (js_prop node ''declarations'')) (\<lambda>ds.
     bind (collect (map (\<lambda>d. bind (get d ''id'') (\<lambda>i. get i ''name'')) ds)) (\<lambda>names.
       js_join '', '' names))"

definition literal_text :: "jsval \<Rightarrow> string outcome" where
  "literal_text v =
     (case v of
        JStr s \<Rightarrow> Ok ([CHR 0x22] @ s @ [CHR 0x22])
      | _ \<Rightarrow> js_to_string v)"

definition createExecutionStep :: "jsval \<Rightarrow> step option outcome" where
  "createExecutionStep node =
     bind (node_line node) (\<lambda>ln.
     bind (extractCodeFromNode node) (\<lambda>cd.
       let t = js_prop node ''type'';
           step = \<lparr> stype = t, line = ln, srange = js_prop node ''range'',
                    sloc = js_prop node ''loc'', description = '''', action = ''execute'',
                    isAsync = False, delay = JNum 0, code = cd, variables = [],
                    soutput = JNull, queue = Some ''callStack'', priority = Some ''normal'' \<rparr>
       in
       if t = JStr ''Program'' then Ok None
       else if t = JStr ''ExpressionStatement'' then
         Ok (Some (step\<lparr> description := ''Executing expression statement'',
                          action := ''expression'' \<rparr>))
       else if t = JStr ''CallExpression'' then
         bind (isConsoleCall node) (\<lambda>is_console.
           if is_console then
             bind (extractConsoleLogMessage node) (\<lambda>msg.
               Ok (Some (step\<lparr> description := ''Console output statement'',
                                action := ''console'', soutput := msg,
                                queue := Some ''callStack'' \<rparr>)))
           else if isSetTimeoutCall node then
             bind (extractTimeoutDelay node) (\<lambda>d.
             bind (js_to_string d) (\<lambda>ds.
               Ok (Some (step\<lparr> description := ''setTimeout call - moving to Web APIs'',
                                action := ''setTimeout'', isAsync := True, delay := d,
                                queue := Some ''webAPIs'',
                                soutput := JStr (''Scheduled timeout with '' @ ds @ ''ms delay'') \<rparr>))))
           else if isPromiseCall node then
             Ok (Some (step\<lparr> description := ''Promise creation - moving to microtask queue'',
                              action := ''promise'', isAsync := True,
                              queue := Some ''microtaskQueue'', priority := Some ''high'',
                              soutput := JStr ''Promise created'' \<rparr>))
           else if isFetchCall node then
             Ok (Some (step\<lparr> description := ''Fetch API call - moving to Web APIs'',
                              action := ''fetch'', isAsync := True, queue := Some ''webAPIs'',
                              soutput := JStr ''Network request initiated'' \<rparr>))
           else
             bind (getFunctionName node) (\<lambda>n.
             bind (js_to_string n) (\<lambda>ns.
               Ok (Some (step\<lparr> description := ''Function call: '' @ ns,
                                action := ''functionCall'', queue := Some ''callStack'' \<rparr>)))))
       else if t = JStr ''VariableDeclaration'' then
         bind (declared_names node) (\<lambda>names.
         bind (extractVariableAssignments node) (\<lambda>vars.
           Ok (Some (step\<lparr> description := ''Variable declaration: '' @ names,
                            action := ''variableDeclaration'', queue := Some ''callStack'',
                            variables := vars \<rparr>))))
       else if t = JStr ''VariableDeclarator'' then
         bind (get (js_prop node ''id'') ''name'') (\<lambda>n.
         bind (js_to_string n) (\<lambda>ns.
         bind (extractValue (js_prop node ''init'')) (\<lambda>v.
           Ok (Some (step\<lparr> description := ''Assigning value to '' @ ns,
                            action := ''variableAssignment'', queue := Some ''callStack'',
                            variables := [(ns, v)] \<rparr>)))))
       else if t = JStr ''Literal'' then
         bind (literal_text (js_prop node ''value'')) (\<lambda>txt.
           Ok (Some (step\<lparr> description := ''Literal value: '' @ txt, action := ''literal'',
                            queue := Some ''callStack'', soutput := js_prop node ''value'' \<rparr>)))
       else if t = JStr ''Identifier'' then
         bind (js_to_string (js_prop node ''name'')) (\<lambda>ns.
           Ok (Some (step\<lparr> description := ''Identifier: '' @ ns, action := ''identifier'',
                            queue := Some ''callStack'', soutput := js_prop node ''name'' \<rparr>)))
       else if t = JStr ''BinaryExpression'' then
         bind (extractBinaryExpression node) (\<lambda>txt.
         bind (evaluateBinaryExpression node) (\<lambda>v.
           Ok (Some (step\<lparr> description := ''Binary operation: '' @ txt,
                            action := ''binaryOperation'', queue := Some ''callStack'',
                            soutput := v \<rparr>))))
       else if t = JStr ''FunctionDeclaration'' then
         bind (get (js_prop node ''id'') ''name'') (\<lambda>n.
         bind (js_to_string n) (\<lambda>ns.
           Ok (Some (step\<lparr> description := ''Function declaration: '' @ ns,
                            action := ''functionDeclaration'', queue := Some ''callStack'',
                            soutput := JStr (''Function '' @ ns @ '' defined'') \<rparr>))))
       else if t = JStr ''FunctionExpression'' then
         Ok (Some (step\<lparr> description := ''Function expression'', action := ''functionExpression'',
                          queue := Some ''callStack'' \<rparr>))
       else if t = JStr ''ArrowFunctionExpression'' then
         Ok (Some (step\<lparr> description := ''Arrow function'', action := ''arrowFunction'',
                          queue := Some ''callStack'' \<rparr>))
       else if t = JStr ''ReturnStatement'' then
         bind (extractValue (js_prop node ''argument'')) (\<lambda>v.
           Ok (Some (step\<lparr> description := ''Return statement'', action := ''return'',
                            queue := Some ''callStack'', soutput := v \<rparr>)))
       else if t = JStr ''IfStatement'' then
         Ok (Some (step\<lparr> description := ''If statement evaluation'', action := ''ifStatement'',
                          queue := Some ''callStack'' \<rparr>))
       else if t = JStr ''WhileStatement'' then
         Ok (Some (step\<lparr> description := ''While loop'', action := ''whileLoop'',
                          queue := Some ''callStack'' \<rparr>))
       else if t = JStr ''ForStatement'' then
         Ok (Some (step\<lparr> description := ''For loop'', action := ''forLoop'',
                          queue := Some ''callStack'' \<rparr>))
       else if t = JStr ''AwaitExpression'' then
         Ok (Some (step\<lparr> description := ''Await expression - creating microtask'',
                          action := ''await'', isAsync := True,
                          queue := Some ''microtaskQueue'', priority := Some ''high'',
                          soutput := JStr ''Awaiting promise resolution'' \<rparr>))
       else if t = JStr ''YieldExpression'' then
         Ok (Some (step\<lparr> description := ''Yield expression'', action := ''yield'',
                          isAsync := True, queue := Some ''microtaskQueue'',
                          priority := Some ''high'' \<rparr>))
       else if t = JStr ''AssignmentExpression'' then
         bind (extractAssignment node) (\<lambda>txt.
         bind (get (js_prop node ''left'') ''name'') (\<lambda>n.
         bind (js_to_string n) (\<lambda>ns.
         bind (extractValue (js_prop node ''right'')) (\<lambda>v.
           Ok (Some (step\<lparr> description := ''Assignment: '' @ txt, action := ''assignment'',
                            queue := Some ''callStack'', variables := [(ns, v)] \<rparr>))))))
       else if t = JStr ''ObjectExpression'' then
         bind (extractObjectProperties node) (\<lambda>v.
           Ok (Some (step\<lparr> description := ''Object creation'', action := ''objectCreation'',
                            queue := Some ''callStack'', soutput := v \<rparr>)))
       else if t = JStr ''ArrayExpression'' then
         bind (extractArrayElements node) (\<lambda>v.
           Ok (Some (step\<lparr> description := ''Array creation'', action := ''arrayCreation'',
                            queue := Some ''callStack'', soutput := v \<rparr>)))
       else
         Ok (Some (step\<lparr> description := cd, action := ''statement'',
                          queue := Some ''callStack'' \<rparr>))))"

subsection \<open>Traversal\<close>

text \<open>
  \<open>traverseAST\<close> returns at once on a falsy node; otherwise it pushes the step of the
  node, if there is one, and walks the enumerable properties of the node with \<open>for ... in\<close>
  (\<open>traverse_keys\<close> for an object, \<open>traverse_indices\<close> for an array; a number, a string or
  a boolean has none whose value is an object). For a property value that is truthy and
  an object (\<open>traverse_value\<close>) it calls itself on every element if the value is an array
  (\<open>traverse_each\<close>) and on the value otherwise. The steps so far are passed along.
\<close>

definition push_step :: "step option \<Rightarrow> step list \<Rightarrow> step list" where
  "push_step st steps = (case st of None \<Rightarrow> steps | Some x \<Rightarrow> steps @ [x])"

fun traverseAST :: "jsval \<Rightarrow> step list \<Rightarrow> step list outcome"
  and traverse_keys :: "(string \<times> jsval) list \<Rightarrow> step list \<Rightarrow> step list outcome"
  and traverse_indices :: "jsval list \<Rightarrow> step list \<Rightarrow> step list outcome"
  and traverse_value :: "jsval \<Rightarrow> step list \<Rightarrow> step list outcome"
  and traverse_each :: "jsval list \<Rightarrow> step list \<Rightarrow> step list outcome" where
  "traverseAST (JObj kvs) steps =
     (case createExecutionStep (JObj kvs) of
        Ok st \<Rightarrow> traverse_keys kvs (push_step st steps)
      | Thrown m \<Rightarrow> Thrown m
      | Beyond \<Rightarrow> Beyond)"
| "traverseAST (JArr xs) steps =
     (case createExecutionStep (JArr xs) of
        Ok st \<Rightarrow> traverse_indices xs (push_step st steps)
      | Thrown m \<Rightarrow> Thrown m
      | Beyond \<Rightarrow> Beyond)"
| "traverseAST v steps =
     (if \<not> truthy v then Ok steps
      else (case createExecutionStep v of
              Ok st \<Rightarrow> Ok (push_step st steps)
            | Thrown m \<Rightarrow> Thrown m
            | Beyond \<Rightarrow> Beyond))"
| "traverse_keys [] steps = Ok steps"
| "traverse_keys ((k, v) # rest) steps =
     (case traverse_value v steps of
        Ok steps' \<Rightarrow> traverse_keys rest steps'
      | Thrown m \<Rightarrow> Thrown m
      | Beyond \<Rightarrow> Beyond)"
| "traverse_indices [] steps = Ok steps"
| "traverse_indices (v # rest) steps =
     (case traverse_value v steps of
        Ok steps' \<Rightarrow> traverse_indices rest steps'
      | Thrown m \<Rightarrow> Thrown m
      | Beyond \<Rightarrow> Beyond)"
| "traverse_value (JArr xs) steps = traverse_each xs steps"
| "traverse_value (JObj kvs) steps = traverseAST (JObj kvs) steps"
| "traverse_value v steps = Ok steps"
| "traverse_each [] steps = Ok steps"
| "traverse_each (x # xs) steps =
     (case traverseAST x steps of
        Ok steps' \<Rightarrow> traverse_each xs steps'
      | Thrown m \<Rightarrow> Thrown m
      | Beyond \<Rightarrow> Beyond)"

subsection \<open>\<open>parseCodeToSteps\<close>\<close>

text \<open>
  The start step carries the first line of the source, the end step the number of lines,
  \<open>code.split('\n').length\<close>. The \<open>try\<close> block holds the parse and the traversal: an
  exception of either gives the one error step. \<open>None\<close> stands for a traversal that leaves
  the embedding.
\<close>

definition newline :: char where
  "newline = CHR 0x0A"

definition program_start_step :: "string \<Rightarrow> step" where
  "program_start_step src =
     \<lparr> stype = JStr ''Program'', line = 1, srange = JUndefined, sloc = JUndefined,
       description = ''Program execution started'', action = ''start'', isAsync = False,
       delay = JNum 0, code = takeWhile (\<lambda>c. c \<noteq> newline) src, variables = [],
       soutput = JNull, queue = None, priority = None \<rparr>"

definition program_end_step :: "string \<Rightarrow> step" where
  "program_end_step src =
     \<lparr> stype = JStr ''Program'', line = int (length (filter (\<lambda>c. c = newline) src)) + 1,
       srange = JUndefined, sloc = JUndefined,
       description = ''Program execution completed'', action = ''end'', isAsync = False,
       delay = JNum 0, code = '''', variables = [], soutput = JNull, queue = None,
       priority = None \<rparr>"

definition error_step :: "string \<Rightarrow> string \<Rightarrow> step" where
  "error_step msg src =
     \<lparr> stype = JStr ''Error'', line = 1, srange = JUndefined, sloc = JUndefined,
       description = ''Parse error: '' @ msg, action = ''error'', isAsync = False,
       delay = JNum 0, code = src, variables = [], soutput = JNull, queue = None,
       priority = None \<rparr>"

definition parseCodeToSteps :: "string + jsval \<Rightarrow> string \<Rightarrow> step list option" where
  "parseCodeToSteps parsed src =
     (case parsed of
        Inl msg \<Rightarrow> Some [error_step msg src]
      | Inr ast \<Rightarrow>
          (case traverseAST ast [program_start_step src] of
             Ok steps \<Rightarrow> Some (steps @ [program_end_step src])
           | Thrown msg \<Rightarrow> Some [error_step msg src]
           | Beyond \<Rightarrow> None))"

subsection \<open>Pre-order\<close>

text \<open>
  The order that the specification names: a node is listed before everything reached
  from it. What a property value contributes to the children of a node is the value
  itself if it is an object, and its truthy elements if it is an array. \<open>classify_all\<close>
  makes the steps of a list of values from left to right and stops at the first that has
  no value.
\<close>

fun reached :: "jsval \<Rightarrow> jsval list" where
  "reached (JArr xs) = filter truthy xs"
| "reached (JObj kvs) = [JObj kvs]"
| "reached v = []"

fun children :: "jsval \<Rightarrow> jsval list" where
  "children (JObj kvs) = concat (map (\<lambda>kv. reached (snd kv)) kvs)"
| "children (JArr xs) = concat (map reached xs)"
| "children v = []"

lemma size_reached: "c \<in> set (reached v) \<Longrightarrow> size c \<le> size v"
  by (cases v) (auto dest: size_elem less_imp_le)

lemma size_children: "c \<in> set (children v) \<Longrightarrow> size c < size v"
proof (cases v)
  case (JObj kvs)
  assume "c \<in> set (children v)"
  with JObj obtain k x where kx: "(k, x) \<in> set kvs" and c: "c \<in> set (reached x)"
    by auto
  from kx have "size x \<le> size_list (size_prod (\<lambda>_. 0) size) kvs"
    by (induction kvs) auto
  with size_reached [OF c] JObj show ?thesis by simp
next
  case (JArr xs)
  assume "c \<in> set (children v)"
  with JArr obtain x where x: "x \<in> set xs" and c: "c \<in> set (reached x)"
    by auto
  from size_elem [OF x] size_reached [OF c] JArr show ?thesis by simp
qed simp_all

function preorder :: "jsval \<Rightarrow> jsval list" where
  "preorder v = v # concat (map preorder (children v))"
  by pat_completeness auto
termination
  by (relation "measure size") (auto dest: size_children)

fun classify_all :: "jsval list \<Rightarrow> step list outcome" where
  "classify_all [] = Ok []"
| "classify_all (v # vs) =
     bind (createExecutionStep v) (\<lambda>st.
     bind (classify_all vs) (\<lambda>steps. Ok (case st of None \<Rightarrow> steps | Some x \<Rightarrow> x # steps)))"

subsection \<open>Syntax trees of the parser\<close>

text \<open>
  The nodes that the parser builds. Every node carries its own fields in the order of the
  parser's node classes, then \<open>range\<close> (the offsets of its first and one past its last
  character) and \<open>loc\<close> (line and column of both).
\<close>

definition position :: "int \<Rightarrow> int \<Rightarrow> jsval" where
  "position l c = JObj [(''line'', JNum l), (''column'', JNum c)]"

definition located :: "(string \<times> jsval) list \<Rightarrow> int \<times> int \<Rightarrow> (int \<times> int) \<times> (int \<times> int) \<Rightarrow> jsval" where
  "located props r l =
     JObj (props @
       [(''range'', JArr [JNum (fst r), JNum (snd r)]),
        (''loc'', JObj [(''start'', position (fst (fst l)) (snd (fst l))),
                        (''end'', position (fst (snd l)) (snd (snd l)))])])"

definition program_node :: "jsval list \<Rightarrow> int \<times> int \<Rightarrow> (int \<times> int) \<times> (int \<times> int) \<Rightarrow> jsval" where
  "program_node body =
     located [(''type'', JStr ''Program''), (''body'', JArr body), (''sourceType'', JStr ''script'')]"

definition expression_statement :: "jsval \<Rightarrow> int \<times> int \<Rightarrow> (int \<times> int) \<times> (int \<times> int) \<Rightarrow> jsval" where
  "expression_statement e =
     located [(''type'', JStr ''ExpressionStatement''), (''expression'', e)]"

definition identifier_node :: "string \<Rightarrow> int \<times> int \<Rightarrow> (int \<times> int) \<times> (int \<times> int) \<Rightarrow> jsval" where
  "identifier_node name = located [(''type'', JStr ''Identifier''), (''name'', JStr name)]"

definition literal_node :: "jsval \<Rightarrow> string \<Rightarrow> int \<times> int \<Rightarrow> (int \<times> int) \<times> (int \<times> int) \<Rightarrow> jsval" where
  "literal_node v raw = located [(''type'', JStr ''Literal''), (''value'', v), (''raw'', JStr raw)]"

definition binary_expression ::
  "string \<Rightarrow> jsval \<Rightarrow> jsval \<Rightarrow> int \<times> int \<Rightarrow> (int \<times> int) \<times> (int \<times> int) \<Rightarrow> jsval" where
  "binary_expression opr l r =
     located [(''type'', JStr ''BinaryExpression''), (''operator'', JStr opr),
              (''left'', l), (''right'', r)]"

definition assignment_expression ::
  "string \<Rightarrow> jsval \<Rightarrow> jsval \<Rightarrow> int \<times> int \<Rightarrow> (int \<times> int) \<times> (int \<times> int) \<Rightarrow> jsval" where
  "assignment_expression opr l r =
     located [(''type'', JStr ''AssignmentExpression''), (''operator'', JStr opr),
              (''left'', l), (''right'', r)]"

definition variable_declarator :: "jsval \<Rightarrow> jsval \<Rightarrow> int \<times> int \<Rightarrow> (int \<times> int) \<times> (int \<times> int) \<Rightarrow> jsval" where
  "variable_declarator ident init =
     located [(''type'', JStr ''VariableDeclarator''), (''id'', ident), (''init'', init)]"

definition variable_declaration ::
  "jsval list \<Rightarrow> string \<Rightarrow> int \<times> int \<Rightarrow> (int \<times> int) \<times> (int \<times> int) \<Rightarrow> jsval" where
  "variable_declaration decls kind =
     located [(''type'', JStr ''VariableDeclaration''), (''declarations'', JArr decls),
              (''kind'', JStr kind)]"

definition object_expression :: "jsval list \<Rightarrow> int \<times> int \<Rightarrow> (int \<times> int) \<times> (int \<times> int) \<Rightarrow> jsval" where
  "object_expression props = located [(''type'', JStr ''ObjectExpression''), (''properties'', JArr props)]"


definition property_node :: "jsval \<Rightarrow> jsval \<Rightarrow> int \<times> int \<Rightarrow> (int \<times> int) \<times> (int \<times> int) \<Rightarrow> jsval" where
  "property_node k v =
     located [(''type'', JStr ''Property''), (''key'', k), (''computed'', JBool False),
              (''value'', v), (''kind'', JStr ''init''), (''method'', JBool False),
              (''shorthand'', JBool False)]"

subsection \<open>Sample programs\<close>

text \<open>The source \<open>const x = 2 + 2;\<close> and its syntax tree.\<close>

definition src_const :: string where
  "src_const = ''const x = 2 + 2;''"

definition two_plus_two :: jsval where
  "two_plus_two =
     binary_expression ''+''
       (literal_node (JNum 2) ''2'' (10, 11) ((1, 10), (1, 11)))
       (literal_node (JNum 2) ''2'' (14, 15) ((1, 14), (1, 15)))
       (10, 15) ((1, 10), (1, 15))"

definition const_declaration :: jsval where
  "const_declaration =
     variable_declaration
       [variable_declarator (identifier_node ''x'' (6, 7) ((1, 6), (1, 7))) two_plus_two
          (6, 15) ((1, 6), (1, 15))]
       ''const'' (0, 16) ((1, 0), (1, 16))"

definition ast_const :: jsval where
  "ast_const = program_node [const_declaration] (0, 16) ((1, 0), (1, 16))"



text \<open>
  A program without statements: the empty source, or white space only. The positions
  depend on the white space; for the empty source the parser counts no line at all.
\<close>

definition empty_program :: "int \<times> int \<Rightarrow> (int \<times> int) \<times> (int \<times> int) \<Rightarrow> jsval" where
  "empty_program = program_node []"

definition src_empty :: string where
  "src_empty = []"

definition ast_empty :: jsval where
  "ast_empty = empty_program (0, 0) ((0, 0), (0, 0))"

text \<open>Two statements on two lines: \<open>a;\<close> and \<open>b;\<close>.\<close>

definition src_two_lines :: string where
  "src_two_lines = ''a;'' @ [newline] @ ''b;''"

definition ast_two_lines :: jsval where
  "ast_two_lines =
     program_node
       [expression_statement (identifier_node ''a'' (0, 1) ((1, 0), (1, 1))) (0, 2) ((1, 0), (1, 2)),
        expression_statement (identifier_node ''b'' (3, 4) ((2, 0), (2, 1))) (3, 5) ((2, 0), (2, 2))]
       (0, 5) ((1, 0), (2, 2))"

text \<open>An assignment of an object literal that has a key \<open>toString\<close>: \<open>x = {toString: 1}\<close>.\<close>

definition src_assign :: string where
  "src_assign = ''x = {toString: 1}''"

definition ast_assign :: jsval where
  "ast_assign =
     program_node
       [expression_statement
          (assignment_expression ''=''
             (identifier_node ''x'' (0, 1) ((1, 0), (1, 1)))
             (object_expression
                [property_node
                   (identifier_node ''toString'' (5, 13) ((1, 5), (1, 13)))
                   (literal_node (JNum 1) ''1'' (15, 16) ((1, 15), (1, 16)))
                   (5, 16) ((1, 5), (1, 16))]
                (4, 17) ((1, 4), (1, 17)))
             (0, 17) ((1, 0), (1, 17)))
          (0, 17) ((1, 0), (1, 17))]
       (0, 17) ((1, 0), (1, 17))"




text \<open>
  The step that \<open>createExecutionStep\<close> makes of a value without \<open>type\<close>, \<open>loc\<close> and
  \<open>range\<close>: an offset in a \<open>range\<close> array, a \<open>loc\<close> object, a position.
\<close>

definition annotation_step :: step where
  "annotation_step =
     \<lparr> stype = JUndefined, line = 1, srange = JUndefined, sloc = JUndefined,
       description = ''undefined statement'', action = ''statement'', isAsync = False,
       delay = JNum 0, code = ''undefined statement'', variables = [], soutput = JNull,
       queue = Some ''callStack'', priority = Some ''normal'' \<rparr>"




subsection \<open>Properties of outcomes\<close>

text \<open>
  A property of the value of an outcome, where there is one; and the steps that a list of
  values contributes to the steps so far.
\<close>

definition holds :: "('a \<Rightarrow> bool) \<Rightarrow> 'a outcome \<Rightarrow> bool" where
  "holds P r = (case r of Ok y \<Rightarrow> P y | Thrown m \<Rightarrow> True | Beyond \<Rightarrow> True)"

definition known_queue :: "step option \<Rightarrow> bool" where
  "known_queue r =
     (case r of
        None \<Rightarrow> True
      | Some st \<Rightarrow> queue st \<in> {Some ''callStack'', Some ''webAPIs'', Some ''microtaskQueue''})"

definition emit :: "jsval list \<Rightarrow> step list \<Rightarrow> step list outcome" where
  "emit vs acc = bind (classify_all vs) (\<lambda>steps. Ok (acc @ steps))"


definition node_types :: "jsval list" where
  "node_types = map JStr [''Program'', ''ExpressionStatement'', ''CallExpression'',
      ''VariableDeclaration'', ''VariableDeclarator'', ''Literal'', ''Identifier'',
      ''BinaryExpression'', ''FunctionDeclaration'', ''FunctionExpression'',
      ''ArrowFunctionExpression'', ''ReturnStatement'', ''IfStatement'', ''WhileStatement'',
      ''ForStatement'', ''AwaitExpression'', ''YieldExpression'', ''AssignmentExpression'',
      ''ObjectExpression'', ''ArrayExpression'']"

definition default_step :: "step option \<Rightarrow> bool" where
  "default_step r =
     (case r of None \<Rightarrow> False
      | Some st \<Rightarrow> queue st = Some ''callStack'' \<and> action st = ''statement'')"

section \<open>Reducers\<close>

text \<open>
  \<open>store/eventLoopSlice.js\<close>. The slice is made with \<open>createSlice\<close> of the store
  library: its reducers run on a draft of the state, and the state that a reducer
  leaves is frozen, with every object in it. An object read from the state is therefore
  frozen, and so is an object that an earlier action has put into the state; an object
  that a caller has just made is not. The module is strict code: a reducer that assigns
  to a property of a frozen payload throws a \<open>TypeError\<close>, its draft is dropped and the
  state stays as it was. A reducer that assigns to a field of an unfrozen payload is
  modelled by the updated task.
\<close>

datatype payload = Unfrozen task | Frozen task

definition read_only :: "string \<Rightarrow> string" where
  "read_only p =
     ''Cannot assign to read only property '' @ [CHR 0x27] @ p @ [CHR 0x27]
       @ '' of object '' @ [CHR 0x27] @ ''#<Object>'' @ [CHR 0x27]"

text \<open>
  The state after the dispatch of an action whose reducer may throw: the exception goes
  to the caller of \<open>dispatch\<close>.
\<close>

definition dispatch :: "(event_loop \<Rightarrow> string + event_loop) \<Rightarrow> event_loop \<Rightarrow> event_loop" where
  "dispatch reducer s = (case reducer s of Inl e \<Rightarrow> s | Inr s' \<Rightarrow> s')"

subsection \<open>Admission\<close>

definition addToCallStack :: "payload \<Rightarrow> event_loop \<Rightarrow> string + event_loop" where
  "addToCallStack p s =
     (case p of
        Frozen t \<Rightarrow> Inl (read_only ''status'')
      | Unfrozen t \<Rightarrow>
          Inr (s\<lparr> callStack := callStack s @ [t\<lparr>status := PENDING, animationState := MOVING\<rparr>],
                  nextTaskId := nextTaskId s + 1 \<rparr>))"

definition addToWebAPIs :: "payload \<Rightarrow> event_loop \<Rightarrow> string + event_loop" where
  "addToWebAPIs p s =
     (case p of
        Frozen t \<Rightarrow> Inl (read_only ''status'')
      | Unfrozen t \<Rightarrow>
          Inr (s\<lparr> webAPIs := webAPIs s @ [t\<lparr>status := WAITING, animationState := MOVING\<rparr>],
                  nextTaskId := nextTaskId s + 1 \<rparr>))"

definition addToCallbackQueue :: "payload \<Rightarrow> event_loop \<Rightarrow> string + event_loop" where
  "addToCallbackQueue p s =
     (case p of
        Frozen t \<Rightarrow> Inl (read_only ''status'')
      | Unfrozen t \<Rightarrow>
          Inr (s\<lparr> callbackQueue :=
                    callbackQueue s @ [t\<lparr>status := PENDING, animationState := MOVING\<rparr>] \<rparr>))"

definition addToMicrotaskQueue :: "payload \<Rightarrow> event_loop \<Rightarrow> string + event_loop" where
  "addToMicrotaskQueue p s =
     (case p of
        Frozen t \<Rightarrow> Inl (read_only ''status'')
      | Unfrozen t \<Rightarrow>
          Inr (s\<lparr> microtaskQueue :=
                    microtaskQueue s @ [t\<lparr>status := PENDING, animationState := MOVING\<rparr>],
                  nextTaskId := nextTaskId s + 1 \<rparr>))"

text \<open>
  \<open>addTask\<close> is a thunk in two parts. Its payload creator runs when the thunk is
  dispatched: it reads \<open>nextTaskId\<close> from the state of that moment and builds the task.
  The \<open>addTask.fulfilled\<close> action, which carries the task, is dispatched once the promise
  of the payload creator has resolved, after the code that dispatched the thunk has run
  to its end; its reducer routes the task by type and advances the counter.
\<close>

record add_task_arg =
  arg_type :: string
  arg_delay :: jsval
  arg_description :: string

definition addTask_payload :: "add_task_arg \<Rightarrow> event_loop \<Rightarrow> task" where
  "addTask_payload a s =
     \<lparr> tid = nextTaskId s, ttype = arg_type a, tdescription = arg_description a,
       tdelay = arg_delay a, status = PENDING, animationState = IDLE \<rparr>"

definition addTask_fulfilled :: "task \<Rightarrow> event_loop \<Rightarrow> event_loop" where
  "addTask_fulfilled t s =
     (if ttype t = SYNCHRONOUS \<or> ttype t = CONSOLE_LOG \<or> ttype t = VARIABLE_ASSIGNMENT
          \<or> ttype t = FUNCTION_CALL
      then s\<lparr> callStack := callStack s @ [t], nextTaskId := nextTaskId s + 1 \<rparr>
      else if ttype t = PROMISE \<or> ttype t = ASYNC_AWAIT
      then s\<lparr> microtaskQueue := microtaskQueue s @ [t], nextTaskId := nextTaskId s + 1 \<rparr>
      else s\<lparr> webAPIs := webAPIs s @ [t], nextTaskId := nextTaskId s + 1 \<rparr>)"

subsection \<open>Beginning execution\<close>

text \<open>
  The three reducers assign \<open>task.status\<close> first, where \<open>task\<close> is the payload, and append
  the console entry after that.
\<close>

definition executeSynchronousTaskWithSteps :: "payload \<Rightarrow> event_loop \<Rightarrow> string + event_loop" where
  "executeSynchronousTaskWithSteps p s =
     (case p of
        Frozen t \<Rightarrow> Inl (read_only ''status'')
      | Unfrozen t \<Rightarrow>
          (let t' = t\<lparr>status := EXECUTING, animationState := ANIM_EXECUTING\<rparr> in
           Inr (s\<lparr> currentExecutingTask := Some t',
                   executionStep := ENTERING_CALL_STACK,
                   consoleOutput := consoleOutput s @ [\<lparr>message = Executing t', etype = ''info''\<rparr>],
                   callStack := filter (\<lambda>u. tid u \<noteq> tid t) (callStack s) \<rparr>)))"

definition executeCallbackWithSteps :: "payload \<Rightarrow> event_loop \<Rightarrow> string + event_loop" where
  "executeCallbackWithSteps p s =
     (case p of
        Frozen t \<Rightarrow> Inl (read_only ''status'')
      | Unfrozen t \<Rightarrow>
          (let t' = t\<lparr>status := EXECUTING, animationState := ANIM_EXECUTING\<rparr> in
           Inr (s\<lparr> currentExecutingTask := Some t',
                   executionStep := EXECUTING_CODE,
                   consoleOutput := consoleOutput s @ [\<lparr>message = Executing t', etype = ''info''\<rparr>],
                   callbackQueue := filter (\<lambda>u. tid u \<noteq> tid t) (callbackQueue s) \<rparr>)))"

definition executeMicrotaskWithSteps :: "payload \<Rightarrow> event_loop \<Rightarrow> string + event_loop" where
  "executeMicrotaskWithSteps p s =
     (case p of
        Frozen t \<Rightarrow> Inl (read_only ''status'')
      | Unfrozen t \<Rightarrow>
          (let t' = t\<lparr>status := EXECUTING, animationState := ANIM_EXECUTING\<rparr> in
           Inr (s\<lparr> currentExecutingTask := Some t',
                   executionStep := EXECUTING_CODE,
                   consoleOutput := consoleOutput s @ [\<lparr>message = Executing t', etype = ''info''\<rparr>],
                   microtaskQueue := filter (\<lambda>u. tid u \<noteq> tid t) (microtaskQueue s) \<rparr>)))"

subsection \<open>The next task\<close>

text \<open>
  What a thunk comes to: the value that its payload creator returns, or, when the
  payload creator throws, the rejection with the message of the exception.
\<close>

datatype 'a settled = Fulfilled 'a | Rejected string

text \<open>
  \<open>executeNextTask\<close> reads the state, takes the head of the first non-empty queue in
  the order microtask queue, callback queue, call stack, dispatches the reducer that
  begins its execution, with that head as the payload, and returns the task with the
  name of its kind; it returns \<open>null\<close> when the three queues are empty. The head is an
  object of the state. An exception of the dispatch leaves the payload creator, and the
  thunk is rejected. The result is what the thunk comes to and the state after it; no
  reducer handles the fulfilled or the rejected action of this thunk.
\<close>

definition executeNextTask :: "event_loop \<Rightarrow> (task \<times> string) option settled \<times> event_loop" where
  "executeNextTask s =
     (if length (microtaskQueue s) > 0 then
        (let t = microtaskQueue s ! 0 in
         case executeMicrotaskWithSteps (Frozen t) s of
           Inl e \<Rightarrow> (Rejected e, s)
         | Inr s' \<Rightarrow> (Fulfilled (Some (t, ''microtask'')), s'))
      else if length (callbackQueue s) > 0 then
        (let t = callbackQueue s ! 0 in
         case executeCallbackWithSteps (Frozen t) s of
           Inl e \<Rightarrow> (Rejected e, s)
         | Inr s' \<Rightarrow> (Fulfilled (Some (t, ''callback'')), s'))
      else if length (callStack s) > 0 then
        (let t = callStack s ! 0 in
         case executeSynchronousTaskWithSteps (Frozen t) s of
           Inl e \<Rightarrow> (Rejected e, s)
         | Inr s' \<Rightarrow> (Fulfilled (Some (t, ''synchronous'')), s'))
      else (Fulfilled None, s))"

subsection \<open>Completion, failure and the console log\<close>

text \<open>
  The regular expressions of \<open>getTaskExecutionResult\<close> have the shape \<open>/PREFIX(.+)/\<close>:
  the leftmost place where the prefix is followed by at least one character other than a
  line terminator, and the longest run of such characters there.
\<close>

fun starts_with :: "string \<Rightarrow> string \<Rightarrow> bool" where
  "starts_with [] s = True"
| "starts_with (p # ps) [] = False"
| "starts_with (p # ps) (c # cs) = (p = c \<and> starts_with ps cs)"

definition line_terminator :: "char \<Rightarrow> bool" where
  "line_terminator c = (c = CHR 0x0A \<or> c = CHR 0x0D)"

fun match_rest :: "string \<Rightarrow> string \<Rightarrow> string option" where
  "match_rest pat [] = None"
| "match_rest pat (c # cs) =
     (let r = takeWhile (\<lambda>x. \<not> line_terminator x) (drop (length pat) (c # cs)) in
      if starts_with pat (c # cs) \<and> r \<noteq> [] then Some r else match_rest pat cs)"

definition getTaskExecutionResult :: "task \<Rightarrow> result_message option" where
  "getTaskExecutionResult t =
     (if ttype t = CONSOLE_LOG then
        map_option Output (match_rest ''Console.log: '' (tdescription t))
      else if ttype t = VARIABLE_ASSIGNMENT then
        map_option Result (match_rest ''Variable assignment: '' (tdescription t))
      else if ttype t = FUNCTION_CALL then
        map_option FunctionExecuted (match_rest ''Function call: '' (tdescription t))
      else if ttype t = SET_TIMEOUT then Some (CallbackExecuted (tdelay t))
      else if ttype t = PROMISE then Some PromiseResolved
      else if ttype t = ASYNC_AWAIT then Some AsyncResolved
      else None)"

text \<open>\<open>list.slice(-20)\<close> under the guard \<open>list.length > 20\<close>.\<close>

definition keep_last_20 :: "'a list \<Rightarrow> 'a list" where
  "keep_last_20 xs = (if length xs > 20 then drop (length xs - 20) xs else xs)"

text \<open>
  \<open>completeTaskExecution\<close> and \<open>setTaskError\<close> assign to the task in the executing-task
  slot of the draft, not to a payload.
\<close>

definition completeTaskExecution :: "rat \<Rightarrow> event_loop \<Rightarrow> event_loop" where
  "completeTaskExecution taskId s =
     (case currentExecutingTask s of
        None \<Rightarrow> s
      | Some t \<Rightarrow>
          if tid t = taskId then
            (let t' = t\<lparr>status := COMPLETED, animationState := IDLE\<rparr>;
                 out1 = consoleOutput s @ [\<lparr>message = Completed t', etype = ''success''\<rparr>];
                 out2 = (case getTaskExecutionResult t' of
                           None \<Rightarrow> out1
                         | Some r \<Rightarrow> out1 @ [\<lparr>message = ExecutionResult r, etype = ''result''\<rparr>])
             in s\<lparr> currentExecutingTask := None, executionStep := STEP_IDLE,
                   consoleOutput := keep_last_20 out2 \<rparr>)
          else s)"

definition setTaskError :: "rat \<Rightarrow> jsval \<Rightarrow> event_loop \<Rightarrow> event_loop" where
  "setTaskError taskId err s =
     (case currentExecutingTask s of
        None \<Rightarrow> s
      | Some t \<Rightarrow>
          if tid t = taskId then
            s\<lparr> currentExecutingTask := None, executionStep := STEP_IDLE,
               consoleOutput :=
                 keep_last_20
                   (consoleOutput s @ [\<lparr>message = ErrorIn (tdescription t) err, etype = ''error''\<rparr>]) \<rparr>
          else s)"

definition addConsoleOutput :: "jsval \<Rightarrow> event_loop \<Rightarrow> event_loop" where
  "addConsoleOutput payload s =
     s\<lparr> consoleOutput := keep_last_20 (consoleOutput s @ [\<lparr>message = Text payload, etype = ''log''\<rparr>]) \<rparr>"

definition clearConsoleOutput :: "event_loop \<Rightarrow> event_loop" where
  "clearConsoleOutput s = s\<lparr> consoleOutput := [] \<rparr>"

definition clearAll :: "event_loop \<Rightarrow> event_loop" where
  "clearAll s =
     s\<lparr> callStack := [], webAPIs := [], callbackQueue := [], microtaskQueue := [],
        currentExecutingTask := None, executionStep := STEP_IDLE,
        codeExecutionSteps := [], currentCodeStep := 0, codeExecutionState := CODE_PARSING,
        codeExecutionVariables := [], isCodeExecuting := False, codeExecutionPaused := False \<rparr>"

subsection \<open>Timers\<close>

text \<open>\<open>Array.prototype.findIndex\<close>; the result \<open>-1\<close> is \<open>None\<close>.\<close>

fun findIndex :: "('a \<Rightarrow> bool) \<Rightarrow> 'a list \<Rightarrow> nat option" where
  "findIndex P [] = None"
| "findIndex P (x # xs) = (if P x then Some 0 else map_option Suc (findIndex P xs))"

text \<open>\<open>list.splice(i, 1)\<close> for an index within the list.\<close>

definition splice1 :: "nat \<Rightarrow> 'a list \<Rightarrow> 'a list" where
  "splice1 i xs = take i xs @ drop (Suc i) xs"

text \<open>The task that \<open>moveFromWebAPIToCallback\<close> assigns to is read from the draft.\<close>

definition moveFromWebAPIToCallback :: "rat \<Rightarrow> event_loop \<Rightarrow> event_loop" where
  "moveFromWebAPIToCallback taskId s =
     (case findIndex (\<lambda>t. tid t = taskId) (webAPIs s) of
        None \<Rightarrow> s
      | Some i \<Rightarrow>
          (let t = (webAPIs s ! i)\<lparr>animationState := MOVING\<rparr> in
           s\<lparr> webAPIs := splice1 i (webAPIs s),
              callbackQueue := callbackQueue s @ [t] \<rparr>))"

subsection \<open>Legacy reducers\<close>

definition executeSynchronousTask :: "payload \<Rightarrow> event_loop \<Rightarrow> string + event_loop" where
  "executeSynchronousTask p s =
     (case p of
        Frozen t \<Rightarrow> Inl (read_only ''status'')
      | Unfrozen t \<Rightarrow>
          Inr (s\<lparr> callStack := filter (\<lambda>u. tid u \<noteq> tid t) (callStack s),
                  currentExecutingTask := None \<rparr>))"

definition executeCallback :: "payload \<Rightarrow> event_loop \<Rightarrow> string + event_loop" where
  "executeCallback p s =
     (case p of
        Frozen t \<Rightarrow> Inl (read_only ''status'')
      | Unfrozen t \<Rightarrow>
          Inr (s\<lparr> callbackQueue := filter (\<lambda>u. tid u \<noteq> tid t) (callbackQueue s),
                  currentExecutingTask := None \<rparr>))"

definition executeMicrotask :: "payload \<Rightarrow> event_loop \<Rightarrow> string + event_loop" where
  "executeMicrotask p s =
     (case p of
        Frozen t \<Rightarrow> Inl (read_only ''status'')
      | Unfrozen t \<Rightarrow>
          Inr (s\<lparr> microtaskQueue := filter (\<lambda>u. tid u \<noteq> tid t) (microtaskQueue s),
                  currentExecutingTask := None \<rparr>))"

subsection \<open>Admission of code steps\<close>

definition getTaskTypeFromStep :: "step \<Rightarrow> string" where
  "getTaskTypeFromStep st =
     (if action st = ''console'' then CONSOLE_LOG
      else if action st = ''setTimeout'' then SET_TIMEOUT
      else if action st = ''promise'' then PROMISE
      else if action st = ''fetch'' then FETCH
      else if action st = ''await'' then ASYNC_AWAIT
      else if action st = ''variableAssignment'' \<or> action st = ''variableDeclaration''
        then VARIABLE_ASSIGNMENT
      else if action st = ''functionCall'' \<or> action st = ''functionDeclaration''
        then FUNCTION_CALL
      else SYNCHRONOUS)"

text \<open>\<open>{ ...a, ...b }\<close> writes the properties of \<open>b\<close> over a copy of \<open>a\<close>.\<close>

definition obj_spread :: "(string \<times> jsval) list \<Rightarrow> (string \<times> jsval) list \<Rightarrow> (string \<times> jsval) list" where
  "obj_spread a b = foldl (\<lambda>acc (k, v). obj_set k v acc) a b"

definition updateCodeExecutionVariables :: "(string \<times> jsval) list \<Rightarrow> event_loop \<Rightarrow> event_loop" where
  "updateCodeExecutionVariables vars s =
     s\<lparr> codeExecutionVariables := obj_spread (codeExecutionVariables s) vars \<rparr>"

definition setCodeExecutionSteps :: "step list \<Rightarrow> event_loop \<Rightarrow> event_loop" where
  "setCodeExecutionSteps steps s = s\<lparr> codeExecutionSteps := steps, currentCodeStep := 0 \<rparr>"

definition setIsCodeExecuting :: "bool \<Rightarrow> event_loop \<Rightarrow> event_loop" where
  "setIsCodeExecuting b s = s\<lparr> isCodeExecuting := b \<rparr>"

text \<open>
  The sum of two numbers is the double nearest to the exact sum, and of two nearest the
  one with the even significand. A double has a significand of 53 bits: between \<open>2^e\<close>
  and \<open>2^(e+1)\<close> the doubles are the multiples of \<open>2^(e-52)\<close>. (The smallest and the
  largest exponents of the format are out of reach of a clock reading.)
\<close>

function floor_log2 :: "int \<Rightarrow> int" where
  "floor_log2 n = (if n < 2 then 0 else 1 + floor_log2 (n div 2))"
  by pat_completeness auto
termination
  by (relation "measure nat") auto

definition exponent :: "rat \<Rightarrow> int" where
  "exponent x =
     (if 1 \<le> x then floor_log2 \<lfloor>x\<rfloor> else - floor_log2 (\<lceil>1 / x\<rceil> - 1) - 1)"

definition pow2 :: "int \<Rightarrow> rat" where
  "pow2 k = (if 0 \<le> k then 2 ^ nat k else 1 / 2 ^ nat (- k))"

definition round_even :: "rat \<Rightarrow> int" where
  "round_even q =
     (if q - of_int \<lfloor>q\<rfloor> < 1 / 2 then \<lfloor>q\<rfloor>
      else if 1 / 2 < q - of_int \<lfloor>q\<rfloor> then \<lfloor>q\<rfloor> + 1
      else if even \<lfloor>q\<rfloor> then \<lfloor>q\<rfloor> else \<lfloor>q\<rfloor> + 1)"

definition nearest_double :: "rat \<Rightarrow> rat" where
  "nearest_double x =
     (if x = 0 then 0
      else sgn x * of_int (round_even (\<bar>x\<bar> / pow2 (exponent \<bar>x\<bar> - 52))) * pow2 (exponent \<bar>x\<bar> - 52))"

text \<open>
  The task that \<open>executeNextCodeStep\<close> builds from a step. Its id is
  \<open>Date.now() + Math.random()\<close>: the clock reading \<open>now\<close> (milliseconds, an integer) and
  the random number \<open>rnd\<close> are inputs of the environment. The task is an object literal
  in the argument of the dispatch: an unfrozen payload.
\<close>

definition task_of_step :: "int \<Rightarrow> rat \<Rightarrow> task_status \<Rightarrow> step \<Rightarrow> task" where
  "task_of_step now rnd st_status st =
     \<lparr> tid = nearest_double (of_int now + rnd), ttype = getTaskTypeFromStep st,
       tdescription = description st, tdelay = js_or (delay st) (JNum 0), status = st_status,
       animationState = MOVING \<rparr>"

text \<open>
  \<open>executeNextCodeStep\<close> is a thunk in two parts as well. Its payload creator reads the
  current step and dispatches the admission, the console output and the variables at
  once; the \<open>switch\<close> over \<open>step.queue\<close> has the three cases \<open>'callStack'\<close>, \<open>'webAPIs'\<close>
  and \<open>'microtaskQueue'\<close> and no default. It returns the step, or \<open>null\<close> when no step is
  left. The reducer of \<open>executeNextCodeStep.fulfilled\<close> advances the step counter when
  the payload is a step. \<open>executeNextCodeStep\<close> below is a dispatch that settles before
  anything else happens.
\<close>

definition executeNextCodeStep_payload :: "int \<Rightarrow> rat \<Rightarrow> event_loop \<Rightarrow> step option \<times> event_loop" where
  "executeNextCodeStep_payload now rnd s =
     (if \<not> isCodeExecuting s \<or> currentCodeStep s \<ge> length (codeExecutionSteps s)
      then (None, s)
      else
        (let st = codeExecutionSteps s ! currentCodeStep s;
             s1 = (if queue st = Some ''callStack''
                     then dispatch (addToCallStack (Unfrozen (task_of_step now rnd PENDING st))) s
                   else if queue st = Some ''webAPIs''
                     then dispatch (addToWebAPIs (Unfrozen (task_of_step now rnd WAITING st))) s
                   else if queue st = Some ''microtaskQueue''
                     then dispatch (addToMicrotaskQueue (Unfrozen (task_of_step now rnd PENDING st))) s
                   else s);
             s2 = (if truthy (soutput st) then addConsoleOutput (soutput st) s1 else s1);
             s3 = (if length (variables st) > 0
                     then updateCodeExecutionVariables (variables st) s2 else s2)
         in (Some st, s3)))"

definition executeNextCodeStep_fulfilled :: "step option \<Rightarrow> event_loop \<Rightarrow> event_loop" where
  "executeNextCodeStep_fulfilled payload s =
     (case payload of
        None \<Rightarrow> s
      | Some st \<Rightarrow>
          (let s' = s\<lparr> currentCodeStep := currentCodeStep s + 1 \<rparr> in
           if currentCodeStep s' \<ge> length (codeExecutionSteps s')
           then s'\<lparr> isCodeExecuting := False, codeExecutionState := CODE_COMPLETED \<rparr>
           else s'))"

definition executeNextCodeStep :: "int \<Rightarrow> rat \<Rightarrow> event_loop \<Rightarrow> step option \<times> event_loop" where
  "executeNextCodeStep now rnd s =
     (case executeNextCodeStep_payload now rnd s of
        (r, s') \<Rightarrow> (r, executeNextCodeStep_fulfilled r s'))"

section \<open>Runs of the scheduler\<close>

text \<open>
  The actions that take effect at once: the reducers, and the thunk \<open>executeNextTask\<close>,
  whose settlement no reducer handles. A run is a list of them, applied from left to
  right; when a reducer throws, the state stays and the run goes on. The reducers that
  are not among them (the settings of the user interface, of the execution step and of
  the code execution state, and the results of custom code) write neither a container
  nor \<open>nextTaskId\<close> nor \<open>consoleOutput\<close>.
\<close>

datatype operation =
    AddToCallStack payload
  | AddToWebAPIs payload
  | AddToCallbackQueue payload
  | AddToMicrotaskQueue payload
  | ExecuteSynchronousTaskWithSteps payload
  | ExecuteCallbackWithSteps payload
  | ExecuteMicrotaskWithSteps payload
  | ExecuteNextTask
  | MoveFromWebAPIToCallback rat
  | ExecuteSynchronousTask payload
  | ExecuteCallback payload
  | ExecuteMicrotask payload
  | CompleteTaskExecution rat
  | SetTaskError rat jsval
  | AddConsoleOutput jsval
  | ClearConsoleOutput
  | ClearAll
  | UpdateCodeExecutionVariables "(string \<times> jsval) list"
  | SetCodeExecutionSteps "step list"
  | SetIsCodeExecuting bool

fun apply_op :: "operation \<Rightarrow> event_loop \<Rightarrow> event_loop" where
  "apply_op (AddToCallStack p) s = dispatch (addToCallStack p) s"
| "apply_op (AddToWebAPIs p) s = dispatch (addToWebAPIs p) s"
| "apply_op (AddToCallbackQueue p) s = dispatch (addToCallbackQueue p) s"
| "apply_op (AddToMicrotaskQueue p) s = dispatch (addToMicrotaskQueue p) s"
| "apply_op (ExecuteSynchronousTaskWithSteps p) s = dispatch (executeSynchronousTaskWithSteps p) s"
| "apply_op (ExecuteCallbackWithSteps p) s = dispatch (executeCallbackWithSteps p) s"
| "apply_op (ExecuteMicrotaskWithSteps p) s = dispatch (executeMicrotaskWithSteps p) s"
| "apply_op ExecuteNextTask s = snd (executeNextTask s)"
| "apply_op (MoveFromWebAPIToCallback i) s = moveFromWebAPIToCallback i s"
| "apply_op (ExecuteSynchronousTask p) s = dispatch (executeSynchronousTask p) s"
| "apply_op (ExecuteCallback p) s = dispatch (executeCallback p) s"
| "apply_op (ExecuteMicrotask p) s = dispatch (executeMicrotask p) s"
| "apply_op (CompleteTaskExecution i) s = completeTaskExecution i s"
| "apply_op (SetTaskError i e) s = setTaskError i e s"
| "apply_op (AddConsoleOutput v) s = addConsoleOutput v s"
| "apply_op ClearConsoleOutput s = clearConsoleOutput s"
| "apply_op ClearAll s = clearAll s"
| "apply_op (UpdateCodeExecutionVariables vars) s = updateCodeExecutionVariables vars s"
| "apply_op (SetCodeExecutionSteps steps) s = setCodeExecutionSteps steps s"
| "apply_op (SetIsCodeExecuting b) s = setIsCodeExecuting b s"

fun run :: "operation list \<Rightarrow> event_loop \<Rightarrow> event_loop" where
  "run [] s = s"
| "run (x # xs) s = run xs (apply_op x s)"

text \<open>
  The two thunks whose fulfilled action has a reducer take effect in two moments. The
  payload creator runs within the dispatch of the thunk; the fulfilled action waits
  until the promise has resolved, which is after the code that made the dispatch has
  run to its end, and in the order of the dispatches. So the scheduler is the store
  together with the fulfilled actions that wait, and what happens to it is the dispatch
  of an action that takes effect at once, the dispatch of one of the two thunks, or the
  arrival of the fulfilled action that has waited longest. A history is a list of such
  events. Code that dispatches a thunk several times in a row, as the loop of
  \<open>executeCode\<close> in \<open>components/EventLoopVisualizer.jsx\<close> dispatches \<open>addTask\<close> for every
  line of the source, is a history with the dispatches first and the arrivals after
  them.
\<close>

datatype fulfilled_action =
    AddTask_fulfilled task
  | ExecuteNextCodeStep_fulfilled "step option"

record scheduler =
  store :: event_loop
  waiting :: "fulfilled_action list"

datatype event =
    Dispatch operation
  | AddTask add_task_arg
  | ExecuteNextCodeStep int rat
  | Arrival

fun reduce :: "fulfilled_action \<Rightarrow> event_loop \<Rightarrow> event_loop" where
  "reduce (AddTask_fulfilled t) s = addTask_fulfilled t s"
| "reduce (ExecuteNextCodeStep_fulfilled r) s = executeNextCodeStep_fulfilled r s"

fun occur :: "event \<Rightarrow> scheduler \<Rightarrow> scheduler" where
  "occur (Dispatch x) w = w\<lparr> store := apply_op x (store w) \<rparr>"
| "occur (AddTask a) w =
     w\<lparr> waiting := waiting w @ [AddTask_fulfilled (addTask_payload a (store w))] \<rparr>"
| "occur (ExecuteNextCodeStep now rnd) w =
     (case executeNextCodeStep_payload now rnd (store w) of
        (r, s') \<Rightarrow> \<lparr> store = s', waiting = waiting w @ [ExecuteNextCodeStep_fulfilled r] \<rparr>)"
| "occur Arrival w =
     (case waiting w of
        [] \<Rightarrow> w
      | a # rest \<Rightarrow> \<lparr> store = reduce a (store w), waiting = rest \<rparr>)"

fun history :: "event list \<Rightarrow> scheduler \<Rightarrow> scheduler" where
  "history [] w = w"
| "history (e # es) w = history es (occur e w)"

definition initial :: scheduler where
  "initial = \<lparr> store = initialState, waiting = [] \<rparr>"

text \<open>
  The ids held by the four containers, container after container; the number of
  containers that hold a task with a given id; and the property that no id occurs twice
  in the containers.
\<close>

definition container_ids :: "event_loop \<Rightarrow> rat list" where
  "container_ids s = map tid (callStack s @ webAPIs s @ callbackQueue s @ microtaskQueue s)"









text \<open>Sample inputs: the tasks of the control panel's buttons.\<close>

definition promise_sample :: add_task_arg where
  "promise_sample = \<lparr> arg_type = PROMISE, arg_delay = JNum 0, arg_description = ''Promise microtask'' \<rparr>"


definition synchronous_sample :: add_task_arg where
  "synchronous_sample =
     \<lparr> arg_type = SYNCHRONOUS, arg_delay = JNum 0, arg_description = ''Basic synchronous code'' \<rparr>"

text \<open>
  The task that the loop of \<open>executeCode\<close> makes of the source line \<open>console.log(1);\<close>.
  The task that it makes of a line with \<open>Promise\<close> in it has the fields of
  \<open>promise_sample\<close>.
\<close>

definition console_line :: add_task_arg where
  "console_line =
     \<lparr> arg_type = CONSOLE_LOG, arg_delay = JNum 0,
       arg_description = ''Console output: console.log(1);'' \<rparr>"



text \<open>
  Histories: one promise task admitted, and two; two timers and a promise task
  admitted one after the other and the next task asked for; the loop of \<open>executeCode\<close> on the source lines \<open>console.log(1);\<close> and
  \<open>Promise.resolve();\<close>, which dispatches \<open>addTask\<close> twice before either fulfilled action
  arrives; twenty-five console outputs, an admission and a request for the next task.
\<close>

definition one_promise :: "event list" where
  "one_promise = [AddTask promise_sample, Arrival]"

definition two_promises :: "event list" where
  "two_promises = [AddTask promise_sample, Arrival, AddTask promise_sample, Arrival]"


definition executeCode_loop :: "event list" where
  "executeCode_loop = [AddTask console_line, AddTask promise_sample, Arrival, Arrival]"


section \<open>Facts about the reducers\<close>

declare floor_log2.simps [simp del]


lemmas reducer_defs =
  dispatch_def addToCallStack_def addToWebAPIs_def addToCallbackQueue_def addToMicrotaskQueue_def
  addTask_payload_def addTask_fulfilled_def
  executeSynchronousTaskWithSteps_def executeCallbackWithSteps_def executeMicrotaskWithSteps_def
  executeNextTask_def completeTaskExecution_def setTaskError_def addConsoleOutput_def
  clearConsoleOutput_def clearAll_def moveFromWebAPIToCallback_def
  executeSynchronousTask_def executeCallback_def executeMicrotask_def
  updateCodeExecutionVariables_def setCodeExecutionSteps_def setIsCodeExecuting_def
  executeNextCodeStep_def executeNextCodeStep_payload_def executeNextCodeStep_fulfilled_def










lemma executeNextTask_frozen:
  "executeNextTask s =
     (if 0 < length (microtaskQueue s) \<or> 0 < length (callbackQueue s) \<or> 0 < length (callStack s)
      then (Rejected (read_only ''status''), s) else (Fulfilled None, s))"
  by (simp add: executeNextTask_def executeMicrotaskWithSteps_def executeCallbackWithSteps_def
      executeSynchronousTaskWithSteps_def)
















lemma keep_last_20_suffix: "\<exists>ys. xs = ys @ keep_last_20 xs"
  by (metis append_Nil append_take_drop_id keep_last_20_def)









text \<open>A code step whose queue is none of the three.\<close>

lemma unknown_queue_frame:
  assumes "isCodeExecuting s" "currentCodeStep s < length (codeExecutionSteps s)"
    and "queue (codeExecutionSteps s ! currentCodeStep s)
           \<notin> {Some ''callStack'', Some ''webAPIs'', Some ''microtaskQueue''}"
  shows "fst (executeNextCodeStep now rnd s) = Some (codeExecutionSteps s ! currentCodeStep s)
    \<and> callStack (snd (executeNextCodeStep now rnd s)) = callStack s
    \<and> webAPIs (snd (executeNextCodeStep now rnd s)) = webAPIs s
    \<and> callbackQueue (snd (executeNextCodeStep now rnd s)) = callbackQueue s
    \<and> microtaskQueue (snd (executeNextCodeStep now rnd s)) = microtaskQueue s
    \<and> nextTaskId (snd (executeNextCodeStep now rnd s)) = nextTaskId s
    \<and> currentCodeStep (snd (executeNextCodeStep now rnd s)) = currentCodeStep s + 1"
  using assms
  by (simp add: executeNextCodeStep_def executeNextCodeStep_payload_def Let_def
      executeNextCodeStep_fulfilled_def addConsoleOutput_def updateCodeExecutionVariables_def)

section \<open>Facts about the extractor\<close>

declare preorder.simps [simp del]

lemma bind_simps [simp]:
  "bind (Ok x) f = f x" "bind (Thrown m) f = Thrown m" "bind Beyond f = Beyond"
  by (simp_all add: bind_def)

lemma bind_Ok_right [simp]: "bind m Ok = m"
  by (cases m) simp_all

lemma bind_assoc: "bind (bind m f) g = bind m (\<lambda>x. bind (f x) g)"
  by (cases m) simp_all

lemma emit_Nil [simp]: "emit [] acc = Ok acc"
  by (simp add: emit_def)

lemma emit_Cons:
  "emit (v # vs) acc = bind (createExecutionStep v) (\<lambda>st. emit vs (push_step st acc))"
proof (cases "createExecutionStep v")
  case (Ok st)
  then show ?thesis
    by (cases "classify_all vs"; cases st) (simp_all add: emit_def push_step_def)
qed (simp_all add: emit_def)

lemma emit_append: "emit (xs @ ys) acc = bind (emit xs acc) (emit ys)"
proof (induction xs arbitrary: acc)
  case Nil
  then show ?case by simp
next
  case (Cons x xs)
  show ?case
    by (cases "createExecutionStep x") (simp_all add: emit_Cons Cons.IH)
qed

lemma case_outcome_bind:
  "(case m of Ok x \<Rightarrow> f x | Thrown e \<Rightarrow> Thrown e | Beyond \<Rightarrow> Beyond) = bind m f"
  by (simp add: bind_def)

lemma preorder_primitive [simp]:
  "preorder JUndefined = [JUndefined]" "preorder JNull = [JNull]"
  "preorder (JBool b) = [JBool b]" "preorder (JNum n) = [JNum n]" "preorder (JStr s) = [JStr s]"
  by (simp_all add: preorder.simps)

lemma traverse_emit:
  "traverseAST v acc = (if truthy v then emit (preorder v) acc else Ok acc)"
  "traverse_keys kvs acc = emit (concat (map preorder (concat (map (\<lambda>kv. reached (snd kv)) kvs)))) acc"
  "traverse_indices xs acc = emit (concat (map preorder (concat (map reached xs)))) acc"
  "traverse_value v acc = emit (concat (map preorder (reached v))) acc"
  "traverse_each xs acc = emit (concat (map preorder (filter truthy xs))) acc"
proof (induction v acc and kvs acc and xs acc and v acc and xs acc
    rule: traverseAST_traverse_keys_traverse_indices_traverse_value_traverse_each.induct)
  case (1 kvs steps)
  show ?case
    by (cases "createExecutionStep (JObj kvs)")
      (simp_all add: preorder.simps [of "JObj kvs"] emit_Cons 1)
next
  case (2 xs steps)
  show ?case
    by (cases "createExecutionStep (JArr xs)")
      (simp_all add: preorder.simps [of "JArr xs"] emit_Cons 2)
next
  case (5 k v rest steps)
  show ?case
    by (cases "traverse_value v steps") (use 5 in \<open>simp_all add: emit_append\<close>)
next
  case (7 v rest steps)
  show ?case
    by (cases "traverse_value v steps") (use 7 in \<open>simp_all add: emit_append\<close>)
next
  case (12 x xs steps)
  show ?case
  proof (cases "truthy x")
    case True
    then show ?thesis
      by (cases "traverseAST x steps") (use 12 in \<open>simp_all add: emit_append\<close>)
  next
    case False
    have "traverseAST x steps = Ok steps"
      using 12(1) False by simp
    with False 12(2) show ?thesis by simp
  qed
qed (simp_all add: emit_Cons case_outcome_bind)

lemma holds_bind: "(\<And>x. holds P (f x)) \<Longrightarrow> holds P (bind m f)"
  by (cases m) (simp_all add: holds_def)

lemma holds_if: "holds P a \<Longrightarrow> holds P b \<Longrightarrow> holds P (if c then a else b)"
  by simp

lemma holds_Ok: "P y \<Longrightarrow> holds P (Ok y)"
  by (simp add: holds_def)

lemma holdsD: "holds P r \<Longrightarrow> r = Ok y \<Longrightarrow> P y"
  by (simp add: holds_def)

lemma createExecutionStep_known_queue: "holds known_queue (createExecutionStep node)"
  unfolding createExecutionStep_def Let_def
  by (intro holds_bind holds_if holds_Ok) (simp_all add: known_queue_def)

lemma createExecutionStep_annotation:
  "js_prop v ''type'' = JUndefined \<Longrightarrow> js_prop v ''loc'' = JUndefined
     \<Longrightarrow> js_prop v ''range'' = JUndefined
     \<Longrightarrow> createExecutionStep v = Ok (Some annotation_step)"
  by (simp add: createExecutionStep_def node_line_def extractCodeFromNode_def annotation_step_def)

lemma createExecutionStep_Program:
  "createExecutionStep (program_node body r l) = Ok None"
  by (simp add: createExecutionStep_def node_line_def extractCodeFromNode_def program_node_def
      located_def position_def get_def nullish_def)

lemma traverse_offset:
  "traverseAST (JNum n) steps = Ok (if n = 0 then steps else steps @ [annotation_step])"
  by (simp add: createExecutionStep_annotation push_step_def)

lemma traverse_position:
  "traverseAST (position i c) steps = Ok (steps @ [annotation_step])"
  by (simp add: position_def createExecutionStep_annotation push_step_def)

lemma traverse_range:
  "traverse_value (JArr [JNum a, JNum b]) steps =
     Ok (steps @ replicate ((if a = 0 then 0 else 1) + (if b = 0 then 0 else 1)) annotation_step)"
  by (simp add: createExecutionStep_annotation push_step_def)

lemma traverse_loc:
  "traverse_value (JObj [(''start'', position i c), (''end'', position i' c')]) steps =
     Ok (steps @ [annotation_step, annotation_step, annotation_step])"
  by (simp add: position_def createExecutionStep_annotation push_step_def)

lemma traverse_plain:
  "traverse_value (JStr s) steps = Ok steps" "traverse_value (JArr []) steps = Ok steps"
  by simp_all

lemma empty_program_steps:
  "traverseAST (empty_program (a, b) l) steps =
     Ok (steps @ replicate ((if a = 0 then 0 else 1) + (if b = 0 then 0 else 1)) annotation_step
           @ [annotation_step, annotation_step, annotation_step])"
proof -
  have "traverseAST (empty_program (a, b) l) steps =
      traverse_keys
        [(''type'', JStr ''Program''), (''body'', JArr []), (''sourceType'', JStr ''script''),
         (''range'', JArr [JNum a, JNum b]),
         (''loc'', JObj [(''start'', position (fst (fst l)) (snd (fst l))),
                         (''end'', position (fst (snd l)) (snd (snd l)))])] steps"
    using createExecutionStep_Program [of "[]" "(a, b)" l]
    by (simp add: empty_program_def program_node_def located_def push_step_def)
  also have "\<dots> = Ok (steps
       @ replicate ((if a = 0 then 0 else 1) + (if b = 0 then 0 else 1)) annotation_step
       @ [annotation_step, annotation_step, annotation_step])"
    by (simp only: traverse_keys.simps traverse_plain traverse_range traverse_loc outcome.case
        append_assoc)
  finally show ?thesis .
qed


lemma extractValue_Literal:
  "js_prop node ''type'' = JStr ''Literal'' \<Longrightarrow> extractValue node = Ok (js_prop node ''value'')"
  using prop_str_obj [of node "''type''" "''Literal''"] by auto

lemma holds_if_cases:
  "(c \<Longrightarrow> holds P a) \<Longrightarrow> (\<not> c \<Longrightarrow> holds P b) \<Longrightarrow> holds P (if c then a else b)"
  by simp

lemma createExecutionStep_default:
  assumes "js_prop node ''type'' \<notin> set node_types"
  shows "holds default_step (createExecutionStep node)"
  using assms unfolding createExecutionStep_def Let_def
  by (intro holds_bind holds_if_cases holds_Ok) (simp_all add: default_step_def node_types_def)




declare extractValue.simps [simp del]


section \<open>Selection order\<close>

text \<open>
  C1. \<open>executeNextTask\<close> looks at the microtask queue first, then at the callback
  queue, then at the call stack, and dispatches the reducer that begins the execution
  of the head of the first that is not empty. It does not return that head. The head is
  an object of the frozen state, the reducer assigns to its \<open>status\<close> and throws a
  \<open>TypeError\<close>, and the thunk is rejected with the message of the exception: in every
  state with a task in one of the three queues \<open>executeNextTask\<close> returns no task and
  leaves the state as it is. Only in a state with three empty queues does it return,
  and it returns nothing. With one promise task admitted from the initial state, the
  microtask queue holds the task with id 1, and the thunk is rejected.
\<close>

theorem executeNextTask_rejected:
  "executeNextTask s =
     (if 0 < length (microtaskQueue s) \<or> 0 < length (callbackQueue s) \<or> 0 < length (callStack s)
      then (Rejected (read_only ''status''), s) else (Fulfilled None, s))
   \<and> map tid (microtaskQueue (store (history one_promise initial))) = [1]
   \<and> executeNextTask (store (history one_promise initial))
       = (Rejected (read_only ''status''), store (history one_promise initial))"
proof -
  have q: "map tid (microtaskQueue (store (history one_promise initial))) = [1]"
    by code_simp
  then have "0 < length (microtaskQueue (store (history one_promise initial)))"
    by (cases "microtaskQueue (store (history one_promise initial))") simp_all
  with q show ?thesis
    by (simp add: executeNextTask_frozen)
qed

section \<open>Repeated selection\<close>

text \<open>
  C4. With two promise tasks admitted, ids 1 and 2, \<open>executeNextTask\<close> invoked twice with
  nothing in between returns a task neither time: both invocations are rejected with
  the \<open>TypeError\<close> of the reducer that begins execution, which the thunk dispatches on
  the frozen head of the microtask queue. The queue holds the two tasks before and
  after.
\<close>

theorem executeNextTask_repeated_rejected:
  "map tid (microtaskQueue (store (history two_promises initial))) = [1, 2]
   \<and> executeNextTask (store (history two_promises initial))
       = (Rejected (read_only ''status''), store (history two_promises initial))
   \<and> fst (executeNextTask (snd (executeNextTask (store (history two_promises initial)))))
       = Rejected (read_only ''status'')
   \<and> map tid (microtaskQueue
         (snd (executeNextTask (snd (executeNextTask (store (history two_promises initial)))))))
       = [1, 2]"
proof -
  have q: "map tid (microtaskQueue (store (history two_promises initial))) = [1, 2]"
    by code_simp
  then have "0 < length (microtaskQueue (store (history two_promises initial)))"
    by (cases "microtaskQueue (store (history two_promises initial))") simp_all
  with q show ?thesis
    by (simp add: executeNextTask_frozen)
qed

section \<open>The cap of the console log\<close>



section \<open>The containers partition the tasks\<close>




section \<open>Task ids\<close>

text \<open>
  C5. The payload creator of \<open>addTask\<close> takes the id from \<open>nextTaskId\<close> when the thunk
  is dispatched, and the counter advances only when the fulfilled action arrives. The
  loop of \<open>executeCode\<close> dispatches \<open>addTask\<close> for every line of the source before any
  fulfilled action arrives, so every task of the loop gets the id that the counter had
  before the loop. For the source lines \<open>console.log(1);\<close> and \<open>Promise.resolve();\<close>,
  from the initial state: both tasks get the id 1, one on the call stack and one in the
  microtask queue, and the counter ends at 3.
\<close>

theorem addTask_same_id:
  "map tid (callStack (store (history executeCode_loop initial))) = [1]
   \<and> map tid (microtaskQueue (store (history executeCode_loop initial))) = [1]
   \<and> container_ids (store (history executeCode_loop initial)) = [1, 1]
   \<and> nextTaskId (store (history executeCode_loop initial)) = 3"
proof -
  have "map tid (callStack (store (history executeCode_loop initial))) = [1]"
    by code_simp
  moreover have "map tid (microtaskQueue (store (history executeCode_loop initial))) = [1]"
    by code_simp
  moreover have "container_ids (store (history executeCode_loop initial)) = [1, 1]"
    by code_simp
  moreover have "nextTaskId (store (history executeCode_loop initial)) = 3"
    by code_simp
  ultimately show ?thesis by blast
qed

section \<open>Steps without a known queue\<close>

text \<open>
  C7, as stated: a step whose queue names no known container is put on the call stack.
  It is not. The start step of \<open>parseCodeToSteps\<close> has no queue; executing it as a code
  step returns the step and leaves the call stack empty.
\<close>

theorem executeNextCodeStep_unknown_queue_counterexample:
  "fst (executeNextCodeStep 1700000000000 (1 / 2)
          (run [SetCodeExecutionSteps [program_start_step src_const], SetIsCodeExecuting True]
             initialState)) = Some (program_start_step src_const)
   \<and> callStack (snd (executeNextCodeStep 1700000000000 (1 / 2)
          (run [SetCodeExecutionSteps [program_start_step src_const], SetIsCodeExecuting True]
             initialState))) = []"
  by (simp add: executeNextCodeStep_def executeNextCodeStep_payload_def Let_def
      executeNextCodeStep_fulfilled_def
      setCodeExecutionSteps_def setIsCodeExecuting_def initialState_def program_start_step_def
      updateCodeExecutionVariables_def addConsoleOutput_def)

text \<open>
  C7, amended. For a step whose queue is none of \<open>callStack\<close>, \<open>webAPIs\<close> and
  \<open>microtaskQueue\<close>, \<open>executeNextCodeStep\<close> creates no task: it returns the step, leaves
  the four containers and the id counter as they are and advances the step counter. The
  synthetic start, end and error steps are such steps. The steps that
  \<open>createExecutionStep\<close> makes always carry one of the three queues, and a node of a type
  it has no case for gets the queue \<open>callStack\<close> and the action \<open>statement\<close>.
\<close>

theorem executeNextCodeStep_unknown_queue:
  "(isCodeExecuting s \<and> currentCodeStep s < length (codeExecutionSteps s)
      \<and> queue (codeExecutionSteps s ! currentCodeStep s)
           \<notin> {Some ''callStack'', Some ''webAPIs'', Some ''microtaskQueue''}
     \<longrightarrow> fst (executeNextCodeStep now rnd s) = Some (codeExecutionSteps s ! currentCodeStep s)
       \<and> callStack (snd (executeNextCodeStep now rnd s)) = callStack s
       \<and> webAPIs (snd (executeNextCodeStep now rnd s)) = webAPIs s
       \<and> callbackQueue (snd (executeNextCodeStep now rnd s)) = callbackQueue s
       \<and> microtaskQueue (snd (executeNextCodeStep now rnd s)) = microtaskQueue s
       \<and> nextTaskId (snd (executeNextCodeStep now rnd s)) = nextTaskId s
       \<and> currentCodeStep (snd (executeNextCodeStep now rnd s)) = currentCodeStep s + 1)
   \<and> holds known_queue (createExecutionStep node)
   \<and> (js_prop node ''type'' \<notin> set node_types \<longrightarrow> holds default_step (createExecutionStep node))
   \<and> queue (program_start_step src) = None
   \<and> queue (program_end_step src) = None
   \<and> queue (error_step msg src) = None"
  using unknown_queue_frame [of s now rnd] createExecutionStep_known_queue [of node]
    createExecutionStep_default [of node]
  by (simp add: program_start_step_def program_end_step_def error_step_def)

theorem executeNextCodeStep_unknown_queue_witness:
  "fst (executeNextCodeStep 1700000000000 (1 / 2)
          (run [SetCodeExecutionSteps [error_step ''Line 1: Unexpected token )'' '')''],
                SetIsCodeExecuting True] initialState))
     = Some (error_step ''Line 1: Unexpected token )'' '')'')
   \<and> container_ids (snd (executeNextCodeStep 1700000000000 (1 / 2)
          (run [SetCodeExecutionSteps [error_step ''Line 1: Unexpected token )'' '')''],
                SetIsCodeExecuting True] initialState))) = []
   \<and> createExecutionStep (JNum 7) = Ok (Some annotation_step)"
proof -
  let ?s = "run [SetCodeExecutionSteps [error_step ''Line 1: Unexpected token )'' '')''],
                SetIsCodeExecuting True] initialState"
  have s: "isCodeExecuting ?s" "currentCodeStep ?s = 0"
    "codeExecutionSteps ?s = [error_step ''Line 1: Unexpected token )'' '')'']"
    "callStack ?s = []" "webAPIs ?s = []" "callbackQueue ?s = []" "microtaskQueue ?s = []"
    by (simp_all add: setCodeExecutionSteps_def setIsCodeExecuting_def initialState_def)
  have q: "queue (error_step ''Line 1: Unexpected token )'' '')'') = None"
    by (simp add: error_step_def)
  have c: "createExecutionStep (JNum 7) = Ok (Some annotation_step)"
    by code_simp
  show ?thesis
    using executeNextCodeStep_unknown_queue [of ?s 1700000000000 "1 / 2" "JNum 7"] s q c
    by (simp add: container_ids_def)
qed

section \<open>The order of the steps\<close>

text \<open>
  C2. The steps come in the order of the walk, a node before what the walk reaches from
  it, but the walk of \<open>traverseAST\<close>, commented "Traverse child nodes", does not stop at
  the child nodes: \<open>for (const key in node)\<close> also enters the \<open>range\<close> array and the
  \<open>loc\<close> object of every node, and \<open>createExecutionStep\<close> makes a step
  \<open>undefined statement\<close> with line 1 of every offset that is not zero, of the \<open>loc\<close>
  object and of its two positions. For the two statements \<open>a;\<close> and \<open>b;\<close> on two lines
  the two steps of the second statement carry line 2, and the steps made of its \<open>range\<close>
  and \<open>loc\<close>, which follow them, carry line 1. The lines of the returned steps are not
  non-decreasing; those of the steps that are made of syntax nodes are.
\<close>

theorem parseCodeToSteps_lines_decrease:
  "map_option (map line) (parseCodeToSteps (Inr ast_two_lines) src_two_lines)
     = Some [1,1,1,1,1,1,1,1,1,1,1,2,2,1,1,1,1,1,1,1,1,1,1,1,1,1,1,2]
   \<and> \<not> sorted [1,1,1,1,1,1,1,1,1,1,1,2,2,1,1,1,1,1,1,1,1,1,1,1,1,1,1,2::int]
   \<and> map_option (\<lambda>steps. map code (take 3 (drop 11 steps)))
        (parseCodeToSteps (Inr ast_two_lines) src_two_lines)
       = Some [''ExpressionStatement statement'', ''Identifier statement'', ''undefined statement'']
   \<and> map_option (\<lambda>steps. map line (filter (\<lambda>st. st \<noteq> annotation_step) steps))
        (parseCodeToSteps (Inr ast_two_lines) src_two_lines)
       = Some [1, 1, 1, 2, 2, 2]"
  by code_simp

section \<open>The boundary of the extractor\<close>

text \<open>
  C8, as stated: for empty or white-space input the result is empty or a single step.
  For the empty source it is neither: \<open>parseCodeToSteps\<close> pushes the start step before
  the traversal and the end step after it, whatever the program is.
\<close>

theorem parseCodeToSteps_empty_counterexample:
  "map_option (map action) (parseCodeToSteps (Inr ast_empty) src_empty)
     = Some [''start'', ''statement'', ''statement'', ''statement'', ''end'']"
  by code_simp

text \<open>
  C8, amended. When the parser fails, the result is the single step of type \<open>Error\<close>
  and action \<open>error\<close> whose description is \<open>Parse error: \<close> followed by the parser's
  message. An exception thrown during the traversal does not leave \<open>parseCodeToSteps\<close>
  either: it gives the same single step, with the exception's message; a traversal
  that raises none gives a list that is not empty. For a program without statements
  (empty or white-space source) the result is never null, empty or a single step: it
  has at least two steps, the first is the start step and the last is the end step.
\<close>

theorem parseCodeToSteps_boundary:
  "parseCodeToSteps (Inl msg) src = Some [error_step msg src]
   \<and> stype (error_step msg src) = JStr ''Error''
   \<and> action (error_step msg src) = ''error''
   \<and> description (error_step msg src) = ''Parse error: '' @ msg
   \<and> (traverseAST ast [program_start_step src] = Thrown m
        \<longrightarrow> parseCodeToSteps (Inr ast) src = Some [error_step m src])
   \<and> (traverseAST ast [program_start_step src] = Ok done
        \<longrightarrow> parseCodeToSteps (Inr ast) src = Some (done @ [program_end_step src]))
   \<and> (\<exists>steps. parseCodeToSteps (Inr (empty_program r l)) src = Some steps
         \<and> 2 \<le> length steps \<and> hd steps = program_start_step src
         \<and> last steps = program_end_step src)"
proof -
  have "traverseAST (empty_program r l) [program_start_step src] =
     Ok ([program_start_step src]
           @ replicate ((if fst r = 0 then 0 else 1) + (if snd r = 0 then 0 else 1)) annotation_step
           @ [annotation_step, annotation_step, annotation_step])"
    using empty_program_steps [of "fst r" "snd r" l "[program_start_step src]"] by simp
  then have "\<exists>steps. parseCodeToSteps (Inr (empty_program r l)) src = Some steps
         \<and> 2 \<le> length steps \<and> hd steps = program_start_step src
         \<and> last steps = program_end_step src"
    by (simp add: parseCodeToSteps_def)
  then show ?thesis
    by (simp add: parseCodeToSteps_def error_step_def)
qed

theorem parseCodeToSteps_boundary_witness:
  "traverseAST ast_assign [program_start_step src_assign] = Thrown cannot_convert
   \<and> parseCodeToSteps (Inr ast_assign) src_assign = Some [error_step cannot_convert src_assign]
   \<and> traverseAST ast_empty [program_start_step src_empty]
       = Ok [program_start_step src_empty, annotation_step, annotation_step, annotation_step]
   \<and> parseCodeToSteps (Inr ast_empty) src_empty =
        Some [program_start_step src_empty, annotation_step, annotation_step, annotation_step,
              program_end_step src_empty]"
proof -
  have t: "traverseAST ast_assign [program_start_step src_assign] = Thrown cannot_convert"
    by code_simp
  have u: "traverseAST ast_empty [program_start_step src_empty]
       = Ok [program_start_step src_empty, annotation_step, annotation_step, annotation_step]"
    by (simp add: ast_empty_def empty_program_steps)
  show ?thesis
    using parseCodeToSteps_boundary [of _ src_assign ast_assign cannot_convert]
      parseCodeToSteps_boundary [of _ src_empty ast_empty _ _] t u
    by simp
qed

text \<open>
  C10, as stated: every source that parses gives at least the start and the end step.
  The source \<open>x = {toString: 1}\<close> parses; the description of its assignment step puts the
  extracted right-hand side, an object whose own property \<open>toString\<close> is not a function,
  into a template string, which throws a \<open>TypeError\<close>; the \<open>catch\<close> of
  \<open>parseCodeToSteps\<close> answers with the single step
  \<open>Parse error: Cannot convert object to primitive value\<close>.
\<close>

theorem parseCodeToSteps_traversal_exception:
  "parseCodeToSteps (Inr ast_assign) src_assign = Some [error_step cannot_convert src_assign]"
  by code_simp

text \<open>
  C10, amended. For every syntax tree on which the traversal raises no exception (the
  empty program and white space included), the result has at least two steps: the
  first is the start step, with action \<open>start\<close> and line 1, and the last is the end step,
  with action \<open>end\<close> and the number of lines of the source as its line.
\<close>

theorem parseCodeToSteps_start_end:
  assumes "traverseAST ast [program_start_step src] = Ok steps"
  shows "parseCodeToSteps (Inr ast) src = Some (steps @ [program_end_step src])
    \<and> hd (steps @ [program_end_step src]) = program_start_step src
    \<and> last (steps @ [program_end_step src]) = program_end_step src
    \<and> 2 \<le> length (steps @ [program_end_step src])
    \<and> action (program_start_step src) = ''start'' \<and> line (program_start_step src) = 1
    \<and> action (program_end_step src) = ''end''
    \<and> line (program_end_step src) = int (length (filter (\<lambda>c. c = newline) src)) + 1"
proof -
  have "\<exists>mid. steps = program_start_step src # mid"
  proof (cases "truthy ast")
    case True
    with assms show ?thesis
      by (cases "classify_all (preorder ast)") (auto simp: traverse_emit(1) emit_def)
  next
    case False
    with assms show ?thesis
      by (auto simp: traverse_emit(1))
  qed
  then obtain mid where "steps = program_start_step src # mid" by blast
  with assms show ?thesis
    by (simp add: parseCodeToSteps_def program_start_step_def program_end_step_def)
qed

theorem parseCodeToSteps_start_end_witness:
  "traverseAST (empty_program (2, 2) ((1, 2), (1, 2))) [program_start_step ''  '']
     = Ok [program_start_step ''  '', annotation_step, annotation_step, annotation_step,
           annotation_step, annotation_step]
   \<and> parseCodeToSteps (Inr (empty_program (2, 2) ((1, 2), (1, 2)))) ''  ''
     = Some [program_start_step ''  '', annotation_step, annotation_step, annotation_step,
             annotation_step, annotation_step, program_end_step ''  '']
   \<and> line (program_end_step ''  '') = 1"
proof -
  have t: "traverseAST (empty_program (2, 2) ((1, 2), (1, 2))) [program_start_step ''  '']
     = Ok [program_start_step ''  '', annotation_step, annotation_step, annotation_step,
           annotation_step, annotation_step]"
    by (simp add: empty_program_steps numeral_2_eq_2)
  show ?thesis
    using parseCodeToSteps_start_end [OF t] t by (simp add: newline_def)
qed

section \<open>Values of right-hand sides\<close>




end
